theory Spec2Isabelle
  imports Complex_Main "HOL-Library.Word"
begin

unbundle bit_operations_syntax

section \<open>Observable effects\<close>

text \<open>
  The port talks to collaborators whose code is not part of the repository's sources
  (the command buffer, the frontend, the emulator core, the socket layer, the clock).
  A call to one of them is the event \<open>Call n\<close>, with \<open>n\<close> the qualified name of
  the method (\<open>CallS n a\<close> when it takes a string argument \<open>a\<close>); the socket calls
  and \<open>sleep_for\<close> have events of their own that carry their arguments.
  \<open>GnmPresent a w h\<close> is the frame handed to the display: the entry of
  \<open>GNMWrapper::Present\<close>, where the vendor call belongs.  A line written to the
  console is \<open>Log m\<close>, with \<open>m\<close> the literal text of the line up to its first
  interpolated value.  Every modelled operation returns the events it produced, in
  program order, next to its result and the updated object.
\<close>

datatype event =
    Log string
  | Call string
  | CallS string string
  | GnmPresent "64 word" "32 word" "32 word"
  | SockSend int string
  | SockRecv int nat
  | SockClose int
  | SleepFor int

text \<open>
  How a piece of the program that may not come back ends: it returned; it was a loop
  still running when the environment's list of iterations was used up; it ran into
  undefined behaviour; the process was terminated by a signal; or it is blocked in a
  system call that never returns.  Each outcome carries the trace up to that point.
\<close>

datatype 'a outcome =
    Returned 'a "event list"
  | Running "event list"
  | Undefined "event list"
  | Killed "event list"
  | Blocked "event list"

fun prepend :: "event list \<Rightarrow> 'a outcome \<Rightarrow> 'a outcome" where
  "prepend l (Returned x l') = Returned x (l @ l')"
| "prepend l (Running l') = Running (l @ l')"
| "prepend l (Undefined l') = Undefined (l @ l')"
| "prepend l (Killed l') = Killed (l @ l')"
| "prepend l (Blocked l') = Blocked (l @ l')"

fun trace_of :: "'a outcome \<Rightarrow> event list" where
  "trace_of (Returned x l) = l"
| "trace_of (Running l) = l"
| "trace_of (Undefined l) = l"
| "trace_of (Killed l) = l"
| "trace_of (Blocked l) = l"

text \<open>
  Sequential composition: what follows a call runs only when the call has returned,
  and its trace comes after the call's.
\<close>

fun and_then :: "'a outcome \<Rightarrow> ('a \<Rightarrow> 'b outcome) \<Rightarrow> 'b outcome" where
  "and_then (Returned x l) f = prepend l (f x)"
| "and_then (Running l) f = Running l"
| "and_then (Undefined l) f = Undefined l"
| "and_then (Killed l) f = Killed l"
| "and_then (Blocked l) f = Blocked l"

text \<open>
  The classes \<open>PS5CommandBuffer\<close>, \<open>PS5TextureManager\<close> and \<open>PS5ShaderCompiler\<close>
  are not part of the sources.  The renderer only holds pointers to them and calls
  their methods, so each is one opaque value; what their \<open>Initialize\<close> returns is an
  argument of the renderer's \<open>Initialize\<close>.
\<close>

datatype PS5CommandBuffer = PS5CommandBuffer
datatype PS5TextureManager = PS5TextureManager
datatype PS5ShaderCompiler = PS5ShaderCompiler

section \<open>gnm\_wrapper.cpp\<close>

text \<open>
  \<open>GNMWrapper::Impl\<close>.  \<open>uint64_t\<close> is \<open>64 word\<close>, \<open>uint32_t\<close> is \<open>32 word\<close>,
  and \<open>size_t\<close> is 64 bits wide on the console and on the development hosts.
\<close>

record Impl =
  device_handle :: "64 word"
  context_handle :: "64 word"
  command_queue_handle :: "64 word"
  gpu_memory_base :: "64 word"
  gpu_memory_offset :: "64 word"

definition Impl_init :: Impl where
  "Impl_init = \<lparr> device_handle = 0, context_handle = 0, command_queue_handle = 0,
                 gpu_memory_base = 0x100000000, gpu_memory_offset = 0 \<rparr>"

text \<open>
  \<open>Impl::AllocateMemory\<close>.  In
  \<open>(gpu_memory_offset + alignment - 1) & ~(alignment - 1)\<close> the left operand is
  computed in 64 bits, while \<open>alignment - 1\<close> and its complement are \<open>uint32_t\<close>
  values; the complement is zero-extended to 64 bits only for the \<open>&\<close>.
\<close>

definition AllocateMemory :: "64 word \<Rightarrow> 32 word \<Rightarrow> Impl \<Rightarrow> 64 word \<times> Impl" where
  "AllocateMemory sz alignment s =
     (let aligned_offset = (gpu_memory_offset s + ucast alignment - 1)
                             AND ucast (NOT (alignment - 1));
          address = gpu_memory_base s + aligned_offset
      in (address, s\<lparr> gpu_memory_offset := aligned_offset + sz \<rparr>))"

record GNMWrapper =
  impl :: Impl
  gnm_initialized :: bool

definition GNMWrapper_new :: GNMWrapper where
  "GNMWrapper_new = \<lparr> impl = Impl_init, gnm_initialized = False \<rparr>"

text \<open>
  The flag \<open>ps5\<close> stands for the preprocessor symbol \<open>PS5_BUILD\<close>: \<open>False\<close> is the
  development build.
\<close>

definition InitializeDevice :: "bool \<Rightarrow> GNMWrapper \<Rightarrow> bool \<times> GNMWrapper \<times> event list" where
  "InitializeDevice ps5 w =
     (if ps5 then
        (let i = (impl w)\<lparr> device_handle := 1, context_handle := 1 \<rparr>
         in (device_handle i \<noteq> 0 \<and> context_handle i \<noteq> 0, w\<lparr> impl := i \<rparr>,
             [Log ''[GNMWrapper] Initializing GNM device...'']))
      else
        (True, w\<lparr> impl := (impl w)\<lparr> device_handle := 1, context_handle := 1 \<rparr> \<rparr>,
         [Log ''[GNMWrapper] GNM device initialization (development mode)'']))"

definition ShutdownDevice :: "bool \<Rightarrow> GNMWrapper \<Rightarrow> GNMWrapper" where
  "ShutdownDevice ps5 w =
     (if ps5 then
        (let w1 = (if context_handle (impl w) \<noteq> 0
                   then w\<lparr> impl := (impl w)\<lparr> context_handle := 0 \<rparr> \<rparr> else w)
         in (if device_handle (impl w1) \<noteq> 0
             then w1\<lparr> impl := (impl w1)\<lparr> device_handle := 0 \<rparr> \<rparr> else w1))
      else w\<lparr> impl := (impl w)\<lparr> device_handle := 0, context_handle := 0 \<rparr> \<rparr>)"

definition CreateCommandQueue :: "bool \<Rightarrow> GNMWrapper \<Rightarrow> bool \<times> GNMWrapper \<times> event list" where
  "CreateCommandQueue ps5 w =
     (if ps5 then
        (let i = (impl w)\<lparr> command_queue_handle := 1 \<rparr>
         in (command_queue_handle i \<noteq> 0, w\<lparr> impl := i \<rparr>,
             [Log ''[GNMWrapper] Creating GNM command queue...'']))
      else
        (True, w\<lparr> impl := (impl w)\<lparr> command_queue_handle := 1 \<rparr> \<rparr>,
         [Log ''[GNMWrapper] Command queue created (development mode)'']))"

definition DestroyCommandQueue :: "bool \<Rightarrow> GNMWrapper \<Rightarrow> GNMWrapper" where
  "DestroyCommandQueue ps5 w =
     (if ps5 then
        (if command_queue_handle (impl w) \<noteq> 0
         then w\<lparr> impl := (impl w)\<lparr> command_queue_handle := 0 \<rparr> \<rparr> else w)
      else w\<lparr> impl := (impl w)\<lparr> command_queue_handle := 0 \<rparr> \<rparr>)"

definition WaitForIdle :: "event list" where
  "WaitForIdle = [Log ''[GNMWrapper] Waiting for GPU idle...'']"

definition GNMWrapper_Initialize :: "bool \<Rightarrow> GNMWrapper \<Rightarrow> bool \<times> GNMWrapper \<times> event list" where
  "GNMWrapper_Initialize ps5 w =
     (if gnm_initialized w then (True, w, [])
      else
        (let l0 = [Log ''[GNMWrapper] Initializing GNM graphics interface...''];
             (ok1, w1, l1) = InitializeDevice ps5 w
         in if \<not> ok1 then
              (False, w1, l0 @ l1 @ [Log ''[GNMWrapper] Failed to initialize GNM device''])
            else
              (let (ok2, w2, l2) = CreateCommandQueue ps5 w1
               in if \<not> ok2 then
                    (False, w2,
                     l0 @ l1 @ l2 @ [Log ''[GNMWrapper] Failed to create command queue''])
                  else
                    (True, w2\<lparr> gnm_initialized := True \<rparr>,
                     l0 @ l1 @ l2 @
                     [Log ''[GNMWrapper] GNM interface initialized successfully'']))))"

definition GNMWrapper_Shutdown :: "bool \<Rightarrow> GNMWrapper \<Rightarrow> GNMWrapper \<times> event list" where
  "GNMWrapper_Shutdown ps5 w =
     (if \<not> gnm_initialized w then (w, [])
      else
        (let w1 = DestroyCommandQueue ps5 w;
             w2 = ShutdownDevice ps5 w1
         in (w2\<lparr> gnm_initialized := False \<rparr>,
             [Log ''[GNMWrapper] Shutting down GNM interface...''] @ WaitForIdle)))"

definition GNMWrapper_AllocateGPUMemory ::
    "64 word \<Rightarrow> 32 word \<Rightarrow> GNMWrapper \<Rightarrow> 64 word \<times> GNMWrapper" where
  "GNMWrapper_AllocateGPUMemory sz alignment w =
     (let (address, i) = AllocateMemory sz alignment (impl w)
      in (address, w\<lparr> impl := i \<rparr>))"

definition GNMWrapper_FreeGPUMemory :: "64 word \<Rightarrow> GNMWrapper \<Rightarrow> GNMWrapper" where
  "GNMWrapper_FreeGPUMemory address w = w"

text \<open>
  \<open>GNMWrapper::SubmitCommandBuffer\<close>.  The argument is a pointer; \<open>None\<close> is the null
  pointer.
\<close>

definition GNMWrapper_SubmitCommandBuffer ::
    "bool \<Rightarrow> PS5CommandBuffer option \<Rightarrow> GNMWrapper \<Rightarrow> GNMWrapper \<times> event list" where
  "GNMWrapper_SubmitCommandBuffer ps5 cmd_buffer w =
     (case cmd_buffer of
        None \<Rightarrow> (w, [])
      | Some c \<Rightarrow>
          (if ps5 then (w, [Log ''[GNMWrapper] Submitting command buffer to GPU...''])
           else (w, [Log ''[GNMWrapper] Command buffer submitted (development mode)''])))"

definition GNMWrapper_Present ::
    "bool \<Rightarrow> 64 word \<Rightarrow> 32 word \<Rightarrow> 32 word \<Rightarrow> bool \<times> event list" where
  "GNMWrapper_Present ps5 color_buffer_addr width height =
     (if ps5 then
        (True, [GnmPresent color_buffer_addr width height,
                Log ''[GNMWrapper] Presenting frame: ''])
      else
        (True, [GnmPresent color_buffer_addr width height,
                Log ''[GNMWrapper] Frame presented (development): '']))"

section \<open>ps5\_renderer.h, ps5\_renderer.cpp\<close>

record FrameBuffer =
  color_buffer_addr :: "64 word"
  depth_buffer_addr :: "64 word"
  width :: "32 word"
  height :: "32 word"

definition MAX_FRAME_BUFFERS :: "64 word" where
  "MAX_FRAME_BUFFERS = 3"

text \<open>
  A \<open>unique_ptr\<close> is an \<open>option\<close> (\<open>None\<close> is the null pointer); the array
  \<open>frame_buffers_\<close> is a list, which has \<open>MAX_FRAME_BUFFERS\<close> elements in every
  object the constructor makes.
\<close>

record PS5Renderer =
  gnm_wrapper :: "GNMWrapper option"
  command_buffer :: "PS5CommandBuffer option"
  texture_manager :: "PS5TextureManager option"
  shader_compiler :: "PS5ShaderCompiler option"
  renderer_initialized :: bool
  display_width :: "32 word"
  display_height :: "32 word"
  current_frame :: "32 word"
  frame_buffers :: "FrameBuffer list"
  current_frame_buffer :: "64 word"

text \<open>
  The constructor does not initialise \<open>frame_buffers_\<close>; \<open>fb0\<close>, \<open>fb1\<close> and
  \<open>fb2\<close> are whatever the memory holds.
\<close>

definition PS5Renderer_new :: "FrameBuffer \<Rightarrow> FrameBuffer \<Rightarrow> FrameBuffer \<Rightarrow> PS5Renderer" where
  "PS5Renderer_new fb0 fb1 fb2 =
     \<lparr> gnm_wrapper = None, command_buffer = None, texture_manager = None,
       shader_compiler = None, renderer_initialized = False,
       display_width = 1920, display_height = 1080, current_frame = 0,
       frame_buffers = [fb0, fb1, fb2], current_frame_buffer = 0 \<rparr>"

definition PS5Renderer_AllocateGPUMemory ::
    "64 word \<Rightarrow> 32 word \<Rightarrow> PS5Renderer \<Rightarrow> 64 word \<times> PS5Renderer" where
  "PS5Renderer_AllocateGPUMemory sz alignment r =
     (case gnm_wrapper r of
        Some w \<Rightarrow>
          (let (address, w') = GNMWrapper_AllocateGPUMemory sz alignment w
           in (address, r\<lparr> gnm_wrapper := Some w' \<rparr>))
      | None \<Rightarrow> (0, r))"

definition PS5Renderer_FreeGPUMemory :: "64 word \<Rightarrow> PS5Renderer \<Rightarrow> PS5Renderer" where
  "PS5Renderer_FreeGPUMemory address r =
     (case gnm_wrapper r of
        Some w \<Rightarrow> r\<lparr> gnm_wrapper := Some (GNMWrapper_FreeGPUMemory address w) \<rparr>
      | None \<Rightarrow> r)"

definition SetDisplayMode ::
    "bool \<Rightarrow> 32 word \<Rightarrow> 32 word \<Rightarrow> 32 word \<Rightarrow> PS5Renderer \<Rightarrow> bool \<times> PS5Renderer \<times> event list" where
  "SetDisplayMode ps5 w h refresh_rate r =
     (let r' = r\<lparr> display_width := w, display_height := h \<rparr>
      in if ps5 then (True, r', [Log ''[PS5Renderer] Setting display mode: ''])
         else (True, r', [Log ''[PS5Renderer] Display mode set (development): '']))"

definition InitializeGNM :: "bool \<Rightarrow> PS5Renderer \<Rightarrow> bool \<times> PS5Renderer \<times> event list" where
  "InitializeGNM ps5 r =
     (if ps5 then
        (let l0 = [Log ''[PS5Renderer] Initializing GNM graphics context...''];
             (ok, r', l1) = SetDisplayMode ps5 (display_width r) (display_height r) 60 r
         in if \<not> ok then (False, r', l0 @ l1) else (True, r', l0 @ l1))
      else (True, r, [Log ''[PS5Renderer] GNM initialization (development mode)'']))"

definition ShutdownGNM :: "bool \<Rightarrow> event list" where
  "ShutdownGNM ps5 =
     (if ps5 then [Log ''[PS5Renderer] Shutting down GNM graphics context...''] else [])"

text \<open>
  The loop of \<open>CreateFramebuffers\<close> over \<open>i = 0, 1, 2\<close>, with its two early returns.
  The buffer sizes are computed in \<open>uint32_t\<close> and widened afterwards.
\<close>

fun CreateFramebuffers_loop :: "nat list \<Rightarrow> PS5Renderer \<Rightarrow> bool \<times> PS5Renderer \<times> event list" where
  "CreateFramebuffers_loop [] r = (True, r, [])"
| "CreateFramebuffers_loop (i # is) r =
     (let color_buffer_size = ucast (display_width r * display_height r * 4) :: 64 word;
          depth_buffer_size = ucast (display_width r * display_height r * 4) :: 64 word;
          (ca, r1) = PS5Renderer_AllocateGPUMemory color_buffer_size 4096 r;
          r2 = r1\<lparr> frame_buffers :=
                 (frame_buffers r1)[i := (frame_buffers r1 ! i)\<lparr> color_buffer_addr := ca \<rparr>] \<rparr>
      in if ca = 0 then (False, r2, [Log ''[PS5Renderer] Failed to allocate color buffer ''])
         else
           (let (da, r3) = PS5Renderer_AllocateGPUMemory depth_buffer_size 4096 r2;
                r4 = r3\<lparr> frame_buffers :=
                       (frame_buffers r3)[i := (frame_buffers r3 ! i)\<lparr> depth_buffer_addr := da \<rparr>] \<rparr>
            in if da = 0 then
                 (False, r4, [Log ''[PS5Renderer] Failed to allocate depth buffer ''])
               else
                 (let r5 = r4\<lparr> frame_buffers :=
                             (frame_buffers r4)[i := (frame_buffers r4 ! i)
                                \<lparr> width := display_width r4, height := display_height r4 \<rparr>] \<rparr>;
                      (ok, r6, l) = CreateFramebuffers_loop is r5
                  in (ok, r6, Log ''[PS5Renderer] Frame buffer '' # l))))"

definition CreateFramebuffers :: "PS5Renderer \<Rightarrow> bool \<times> PS5Renderer \<times> event list" where
  "CreateFramebuffers r =
     (let (ok, r', l) = CreateFramebuffers_loop [0 ..< unat MAX_FRAME_BUFFERS] r
      in (ok, r', Log ''[PS5Renderer] Creating frame buffers...'' # l))"

fun DestroyFramebuffers_loop :: "nat list \<Rightarrow> PS5Renderer \<Rightarrow> PS5Renderer" where
  "DestroyFramebuffers_loop [] r = r"
| "DestroyFramebuffers_loop (i # is) r =
     (let r1 = (if color_buffer_addr (frame_buffers r ! i) \<noteq> 0 then
                  (let r' = PS5Renderer_FreeGPUMemory (color_buffer_addr (frame_buffers r ! i)) r
                   in r'\<lparr> frame_buffers :=
                          (frame_buffers r')[i := (frame_buffers r' ! i)\<lparr> color_buffer_addr := 0 \<rparr>] \<rparr>)
                else r);
          r2 = (if depth_buffer_addr (frame_buffers r1 ! i) \<noteq> 0 then
                  (let r' = PS5Renderer_FreeGPUMemory (depth_buffer_addr (frame_buffers r1 ! i)) r1
                   in r'\<lparr> frame_buffers :=
                          (frame_buffers r')[i := (frame_buffers r' ! i)\<lparr> depth_buffer_addr := 0 \<rparr>] \<rparr>)
                else r1)
      in DestroyFramebuffers_loop is r2)"

definition DestroyFramebuffers :: "PS5Renderer \<Rightarrow> PS5Renderer" where
  "DestroyFramebuffers r = DestroyFramebuffers_loop [0 ..< unat MAX_FRAME_BUFFERS] r"

text \<open>
  A destructor runs when a \<open>unique_ptr\<close> that owns an object is assigned a new one or
  reset.  \<open>~GNMWrapper\<close> shuts the wrapper down if it is initialised.  The destructors
  of the classes outside the sources are not traced.
\<close>

definition GNMWrapper_dtor :: "bool \<Rightarrow> GNMWrapper option \<Rightarrow> event list" where
  "GNMWrapper_dtor ps5 p =
     (case p of None \<Rightarrow> []
      | Some w \<Rightarrow> (if gnm_initialized w then snd (GNMWrapper_Shutdown ps5 w) else []))"

definition PS5Renderer_Initialize ::
    "bool \<Rightarrow> bool \<Rightarrow> bool \<Rightarrow> bool \<Rightarrow> PS5Renderer \<Rightarrow> bool \<times> PS5Renderer \<times> event list" where
  "PS5Renderer_Initialize ps5 cmd_ok tex_ok shader_ok r =
     (if renderer_initialized r then (True, r, [])
      else
        (let l0 = [Log ''[PS5Renderer] Initializing PS5 Graphics System...''];
             (ok1, w, l1) = GNMWrapper_Initialize ps5 GNMWrapper_new;
             r1 = r\<lparr> gnm_wrapper := Some w \<rparr>;
             e1 = l0 @ GNMWrapper_dtor ps5 (gnm_wrapper r) @ l1
         in if \<not> ok1 then
              (False, r1, e1 @ [Log ''[PS5Renderer] Failed to initialize GNM wrapper''])
            else
        (let r2 = r1\<lparr> command_buffer := Some PS5CommandBuffer \<rparr>;
             e2 = e1 @ [Call ''PS5CommandBuffer::Initialize'']
         in if \<not> cmd_ok then
              (False, r2, e2 @ [Log ''[PS5Renderer] Failed to initialize command buffer''])
            else
        (let r3 = r2\<lparr> texture_manager := Some PS5TextureManager \<rparr>;
             e3 = e2 @ [Call ''PS5TextureManager::Initialize'']
         in if \<not> tex_ok then
              (False, r3, e3 @ [Log ''[PS5Renderer] Failed to initialize texture manager''])
            else
        (let r4 = r3\<lparr> shader_compiler := Some PS5ShaderCompiler \<rparr>;
             e4 = e3 @ [Call ''PS5ShaderCompiler::Initialize'']
         in if \<not> shader_ok then
              (False, r4, e4 @ [Log ''[PS5Renderer] Failed to initialize shader compiler''])
            else
        (let (ok5, r5, l5) = InitializeGNM ps5 r4
         in if \<not> ok5 then
              (False, r5,
               e4 @ l5 @ [Log ''[PS5Renderer] Failed to initialize GNM graphics context''])
            else
        (let (ok6, r6, l6) = CreateFramebuffers r5
         in if \<not> ok6 then
              (False, r6, e4 @ l5 @ l6 @ [Log ''[PS5Renderer] Failed to create frame buffers''])
            else
              (True, r6\<lparr> renderer_initialized := True \<rparr>,
               e4 @ l5 @ l6 @
               [Log ''[PS5Renderer] Graphics system initialized successfully'',
                Log ''[PS5Renderer] Display: '']))))))))"

definition PS5Renderer_Shutdown :: "bool \<Rightarrow> PS5Renderer \<Rightarrow> PS5Renderer \<times> event list" where
  "PS5Renderer_Shutdown ps5 r =
     (if \<not> renderer_initialized r then (r, [])
      else
        (let l0 = [Log ''[PS5Renderer] Shutting down PS5 Graphics System...''];
             l1 = (case gnm_wrapper r of Some w \<Rightarrow> WaitForIdle | None \<Rightarrow> []);
             r1 = DestroyFramebuffers r;
             l2 = (case shader_compiler r1 of
                     Some c \<Rightarrow> [Call ''PS5ShaderCompiler::Shutdown''] | None \<Rightarrow> []);
             l3 = (case texture_manager r1 of
                     Some t \<Rightarrow> [Call ''PS5TextureManager::Shutdown''] | None \<Rightarrow> []);
             l4 = (case command_buffer r1 of
                     Some c \<Rightarrow> [Call ''PS5CommandBuffer::Shutdown''] | None \<Rightarrow> []);
             l5 = ShutdownGNM ps5;
             (r2, l6) = (case gnm_wrapper r1 of
                           Some w \<Rightarrow>
                             (let (w', l) = GNMWrapper_Shutdown ps5 w
                              in (r1\<lparr> gnm_wrapper := Some w' \<rparr>, l))
                         | None \<Rightarrow> (r1, []))
         in (r2\<lparr> renderer_initialized := False \<rparr>, l0 @ l1 @ l2 @ l3 @ l4 @ l5 @ l6)))"

definition BeginFrame :: "PS5Renderer \<Rightarrow> PS5Renderer \<times> event list" where
  "BeginFrame r =
     (let r1 = r\<lparr> current_frame := current_frame r + 1 \<rparr>;
          r2 = r1\<lparr> current_frame_buffer := ucast (current_frame r1) mod MAX_FRAME_BUFFERS \<rparr>
      in (r2, case command_buffer r2 of
                Some c \<Rightarrow> [Call ''PS5CommandBuffer::Begin''] | None \<Rightarrow> []))"

definition EndFrame :: "PS5Renderer \<Rightarrow> PS5Renderer \<times> event list" where
  "EndFrame r =
     (r, case command_buffer r of
           Some c \<Rightarrow> [Call ''PS5CommandBuffer::End''] | None \<Rightarrow> [])"

definition PS5Renderer_SubmitCommandBuffer ::
    "bool \<Rightarrow> PS5CommandBuffer option \<Rightarrow> PS5Renderer \<Rightarrow> PS5Renderer \<times> event list" where
  "PS5Renderer_SubmitCommandBuffer ps5 cmd_buffer r =
     (case gnm_wrapper r of
        None \<Rightarrow> (r, [])
      | Some w \<Rightarrow>
          (case cmd_buffer of
             None \<Rightarrow> (r, [])
           | Some c \<Rightarrow>
               (let (w', l) = GNMWrapper_SubmitCommandBuffer ps5 (Some c) w
                in (r\<lparr> gnm_wrapper := Some w' \<rparr>, l))))"

text \<open>
  \<open>PS5Renderer::Present\<close>.  The read \<open>frame_buffers_[current_frame_buffer_]\<close> is
  not checked by the code; an index outside the array is undefined behaviour, which
  the model makes the result \<open>None\<close>.
\<close>

definition PS5Renderer_Present :: "bool \<Rightarrow> PS5Renderer \<Rightarrow> (PS5Renderer \<times> event list) option" where
  "PS5Renderer_Present ps5 r =
     (let (r1, l1) = (case command_buffer r of
                        Some c \<Rightarrow> PS5Renderer_SubmitCommandBuffer ps5 (Some c) r
                      | None \<Rightarrow> (r, []))
      in case gnm_wrapper r1 of
           None \<Rightarrow> Some (r1, l1)
         | Some w \<Rightarrow>
             (if unat (current_frame_buffer r1) < length (frame_buffers r1) then
                (let fb = frame_buffers r1 ! unat (current_frame_buffer r1);
                     (ok, l2) = GNMWrapper_Present ps5 (color_buffer_addr fb)
                                  (display_width r1) (display_height r1)
                 in Some (r1, l1 @ l2))
              else None))"

section \<open>etahen\_plugin.h, etahen\_plugin.cpp\<close>

text \<open>
  A \<open>std::function\<close> member is modelled by whether it holds a callback; calling it is
  an event.  The socket descriptor is a C \<open>int\<close>.
\<close>

record EtaHENPlugin =
  plugin_initialized :: bool
  etahen_available :: bool
  connected :: bool
  registered :: bool
  plugin_name :: string
  plugin_version :: string
  ipc_socket :: int
  etahen_port :: "16 word"
  ftp_server_running :: bool
  klog_server_running :: bool
  ps5_debug_enabled :: bool
  cheats_enabled :: bool
  status_callback :: bool
  message_callback :: bool

definition EtaHENPlugin_new :: EtaHENPlugin where
  "EtaHENPlugin_new =
     \<lparr> plugin_initialized = False, etahen_available = False, connected = False,
       registered = False, plugin_name = ''Eden Nintendo Switch Emulator'',
       plugin_version = ''1.0.0-PS5'', ipc_socket = - 1, etahen_port = 9028,
       ftp_server_running = False, klog_server_running = False,
       ps5_debug_enabled = False, cheats_enabled = False,
       status_callback = False, message_callback = False \<rparr>"

text \<open>
  What the socket layer answers to one \<open>SendIPCCommand\<close>: what \<open>send\<close> does, what
  \<open>recv\<close> does, and the bytes \<open>recv\<close> wrote to the buffer.

  \<open>send\<close> is called with flags \<open>0\<close>, and \<open>main\<close> installs handlers for
  \<open>SIGINT\<close> and \<open>SIGTERM\<close> only.  On a connection that the peer has closed,
  \<open>send\<close> therefore either returns \<open>- 1\<close> (when \<open>SIGPIPE\<close> is ignored from
  outside the program) or raises \<open>SIGPIPE\<close>, whose default action terminates the
  process: \<open>SendSigpipe\<close>.  \<open>recv\<close> is called on a blocking socket with no
  timeout: when the peer keeps the connection open and sends nothing, it never
  returns: \<open>RecvBlocks\<close>.
\<close>

datatype send_result = SendReturns int | SendSigpipe
datatype recv_result = RecvReturns int | RecvBlocks

record ipc_reply =
  send_ret :: send_result
  recv_ret :: recv_result
  recv_data :: string

text \<open>
  \<open>EtaHENPlugin::SendIPCCommand\<close>.  \<open>response\<close> is the reference parameter: the
  value it has on entry is the value it keeps on every failing path.  The code writes
  a NUL after the received bytes and builds the response with \<open>std::string(buffer)\<close>,
  which stops at the first NUL.  \<open>SockSend fd bytes\<close> is
  \<open>send(fd, bytes, length bytes, 0)\<close> and \<open>SockRecv fd n\<close> is
  \<open>recv(fd, buffer, n, 0)\<close>.
\<close>

definition SendIPCCommand ::
    "ipc_reply \<Rightarrow> string \<Rightarrow> string \<Rightarrow> EtaHENPlugin \<Rightarrow> (bool \<times> string) outcome" where
  "SendIPCCommand net command response p =
     (if ipc_socket p = - 1 then Returned (False, response) []
      else
        (case send_ret net of
           SendSigpipe \<Rightarrow> Killed [SockSend (ipc_socket p) command]
         | SendReturns sent \<Rightarrow>
             if sent < 0 then
               Returned (False, response)
                 [SockSend (ipc_socket p) command,
                  Log ''[EtaHENPlugin] Failed to send IPC command'']
             else
               (case recv_ret net of
                  RecvBlocks \<Rightarrow>
                    Blocked [SockSend (ipc_socket p) command, SockRecv (ipc_socket p) 1023]
                | RecvReturns bytes_received \<Rightarrow>
                    if bytes_received < 0 then
                      Returned (False, response)
                        [SockSend (ipc_socket p) command, SockRecv (ipc_socket p) 1023,
                         Log ''[EtaHENPlugin] Failed to receive IPC response'']
                    else
                      Returned
                        (True,
                         takeWhile (\<lambda>c. c \<noteq> CHR 0x00)
                           (take (nat bytes_received) (recv_data net)))
                        [SockSend (ipc_socket p) command, SockRecv (ipc_socket p) 1023])))"

definition InitializeIPC :: "bool \<Rightarrow> bool \<times> event list" where
  "InitializeIPC ps5 =
     (if ps5 then (True, [Log ''[EtaHENPlugin] Initializing PS5 IPC system...''])
      else (True, [Log ''[EtaHENPlugin] IPC system initialized (development mode)'']))"

definition ShutdownIPC :: "EtaHENPlugin \<Rightarrow> EtaHENPlugin \<times> event list" where
  "ShutdownIPC p =
     (if ipc_socket p \<noteq> - 1 then (p\<lparr> ipc_socket := - 1 \<rparr>, [SockClose (ipc_socket p)])
      else (p, []))"

text \<open>
  \<open>ConnectToEtaHEN\<close>; \<open>sock_ret\<close> and \<open>conn_ret\<close> are what \<open>socket\<close> and
  \<open>connect\<close> return in the console build.
\<close>

definition ConnectToEtaHEN ::
    "bool \<Rightarrow> int \<Rightarrow> int \<Rightarrow> EtaHENPlugin \<Rightarrow> bool \<times> EtaHENPlugin \<times> event list" where
  "ConnectToEtaHEN ps5 sock_ret conn_ret p =
     (let l0 = [Log ''[EtaHENPlugin] Attempting to connect to etaHEN...'']
      in if ps5 then
           (let p1 = p\<lparr> ipc_socket := sock_ret \<rparr>
            in if ipc_socket p1 < 0 then
                 (False, p1, l0 @ [Call ''socket'', Log ''[EtaHENPlugin] Failed to create socket''])
               else if conn_ret < 0 then
                 (False, p1\<lparr> ipc_socket := - 1 \<rparr>,
                  l0 @ [Call ''socket'', Call ''connect'',
                        Log ''[EtaHENPlugin] Failed to connect to etaHEN (port '',
                        SockClose (ipc_socket p1)])
               else
                 (True, p1\<lparr> connected := True \<rparr>,
                  l0 @ [Call ''socket'', Call ''connect'',
                        Log ''[EtaHENPlugin] Connected to etaHEN successfully''] @
                  (if status_callback p1 then [CallS ''status_callback'' ''true''] else [])))
         else
           (False, p\<lparr> connected := False \<rparr>,
            l0 @ [Log ''[EtaHENPlugin] etaHEN connection simulated (development mode)'']))"

definition DisconnectFromEtaHEN :: "EtaHENPlugin \<Rightarrow> EtaHENPlugin \<times> event list" where
  "DisconnectFromEtaHEN p =
     (if \<not> connected p then (p, [])
      else
        (let l0 = [Log ''[EtaHENPlugin] Disconnecting from etaHEN...''];
             (p1, l1) = (if ipc_socket p \<noteq> - 1
                         then (p\<lparr> ipc_socket := - 1 \<rparr>, [SockClose (ipc_socket p)])
                         else (p, []));
             p2 = p1\<lparr> connected := False \<rparr>
         in (p2, l0 @ l1 @
                 (if status_callback p2 then [CallS ''status_callback'' ''false''] else []))))"

definition RegisterWithEtaHEN ::
    "ipc_reply \<Rightarrow> string \<Rightarrow> string \<Rightarrow> EtaHENPlugin \<Rightarrow> (bool \<times> EtaHENPlugin) outcome" where
  "RegisterWithEtaHEN net name version p =
     (if \<not> connected p then Returned (False, p) []
      else
        (let p1 = p\<lparr> plugin_name := name, plugin_version := version \<rparr>;
             command = ''REGISTER_PLUGIN:'' @ name @ '':'' @ version
         in prepend [Log ''[EtaHENPlugin] Registering plugin: '']
              (and_then (SendIPCCommand net command [] p1)
                 (\<lambda>(ok, response).
                    if ok then
                      Returned (True, p1\<lparr> registered := True \<rparr>)
                        [Log ''[EtaHENPlugin] Plugin registered successfully'']
                    else
                      Returned (False, p1) [Log ''[EtaHENPlugin] Failed to register plugin'']))))"

definition UnregisterFromEtaHEN :: "ipc_reply \<Rightarrow> EtaHENPlugin \<Rightarrow> EtaHENPlugin outcome" where
  "UnregisterFromEtaHEN net p =
     (if \<not> registered p \<or> \<not> connected p then Returned p []
      else
        (let command = ''UNREGISTER_PLUGIN:'' @ plugin_name p
         in prepend [Log ''[EtaHENPlugin] Unregistering plugin...'']
              (and_then (SendIPCCommand net command [] p)
                 (\<lambda>(ok, response). Returned (p\<lparr> registered := False \<rparr>) []))))"

text \<open>\<open>std::to_string\<close> of an \<open>int\<close>: the decimal digits, with a minus sign.\<close>

fun digits :: "nat \<Rightarrow> string" where
  "digits n =
     (if n < 10 then [char_of (48 + n)] else digits (n div 10) @ [char_of (48 + n mod 10)])"

definition to_string :: "int \<Rightarrow> string" where
  "to_string i = (if i < 0 then CHR ''-'' # digits (nat (- i)) else digits (nat i))"

text \<open>
  \<open>RequestJailbreak\<close>; \<open>my_pid\<close> is what \<open>getpid\<close> returns, and \<open>pid\<close> defaults to
  \<open>- 1\<close> in the header.
\<close>

definition RequestJailbreak ::
    "ipc_reply \<Rightarrow> int \<Rightarrow> int \<Rightarrow> EtaHENPlugin \<Rightarrow> bool outcome" where
  "RequestJailbreak net my_pid pid p =
     (if \<not> connected p then
        Returned False
          [Log ''[EtaHENPlugin] Cannot request jailbreak - not connected to etaHEN'']
      else
        (let pid' = (if pid = - 1 then my_pid else pid);
             command = ''JAILBREAK:'' @ to_string pid'
         in prepend [Log ''[EtaHENPlugin] Requesting jailbreak for PID '']
              (and_then (SendIPCCommand net command [] p)
                 (\<lambda>(ok, response).
                    if ok then
                      Returned True [Log ''[EtaHENPlugin] Jailbreak request successful'']
                    else
                      Returned False [Log ''[EtaHENPlugin] Jailbreak request failed'']))))"

definition EnableDataAccess :: "ipc_reply \<Rightarrow> EtaHENPlugin \<Rightarrow> bool outcome" where
  "EnableDataAccess net p =
     (if \<not> connected p then Returned False []
      else
        prepend [Log ''[EtaHENPlugin] Enabling /data access...'']
          (and_then (SendIPCCommand net ''ENABLE_DATA_ACCESS'' [] p)
             (\<lambda>(ok, response). Returned ok [])))"

definition StopFTPServer :: "ipc_reply \<Rightarrow> EtaHENPlugin \<Rightarrow> EtaHENPlugin outcome" where
  "StopFTPServer net p =
     (if \<not> ftp_server_running p \<or> \<not> connected p then Returned p []
      else
        prepend [Log ''[EtaHENPlugin] Stopping FTP server...'']
          (and_then (SendIPCCommand net ''STOP_FTP'' [] p)
             (\<lambda>(ok, response). Returned (p\<lparr> ftp_server_running := False \<rparr>) [])))"

definition EtaHENPlugin_Initialize ::
    "bool \<Rightarrow> int \<Rightarrow> int \<Rightarrow> ipc_reply \<Rightarrow> EtaHENPlugin \<Rightarrow> (bool \<times> EtaHENPlugin) outcome" where
  "EtaHENPlugin_Initialize ps5 sock_ret conn_ret net p =
     (if plugin_initialized p then Returned (True, p) []
      else
        (let l0 = [Log ''[EtaHENPlugin] Initializing etaHEN integration...''];
             (ok, l1) = InitializeIPC ps5
         in if \<not> ok then
              Returned (False, p)
                (l0 @ l1 @ [Log ''[EtaHENPlugin] Failed to initialize IPC system''])
            else
              (let (av, p1, l2) = ConnectToEtaHEN ps5 sock_ret conn_ret p;
                   p2 = p1\<lparr> etahen_available := av \<rparr>
               in prepend (l0 @ l1 @ l2)
                    (and_then
                       (if etahen_available p2 then
                          and_then
                            (RegisterWithEtaHEN net (plugin_name p2) (plugin_version p2) p2)
                            (\<lambda>(rok, p').
                               if rok then
                                 Returned p'
                                   [Log ''[EtaHENPlugin] Successfully registered with etaHEN'']
                               else
                                 Returned p'
                                   [Log ''[EtaHENPlugin] Failed to register with etaHEN, but continuing...''])
                        else
                          Returned p2
                            [Log ''[EtaHENPlugin] etaHEN not detected, running in standalone mode''])
                       (\<lambda>p3.
                          Returned (True, p3\<lparr> plugin_initialized := True \<rparr>)
                            [Log ''[EtaHENPlugin] etaHEN integration initialized'',
                             Log ''[EtaHENPlugin] etaHEN Available: ''])))))"

text \<open>
  \<open>EtaHENPlugin::Shutdown\<close>.  \<open>StopKlogServer\<close> and \<open>DisablePS5Debug\<close> are declared in
  the header and defined nowhere in the sources: they are calls, and the model leaves
  the plugin as it is across them.
\<close>

definition EtaHENPlugin_Shutdown ::
    "ipc_reply \<Rightarrow> ipc_reply \<Rightarrow> EtaHENPlugin \<Rightarrow> EtaHENPlugin outcome" where
  "EtaHENPlugin_Shutdown net_ftp net_unreg p =
     (if \<not> plugin_initialized p then Returned p []
      else
        prepend [Log ''[EtaHENPlugin] Shutting down etaHEN integration...'']
          (and_then (StopFTPServer net_ftp p)
             (\<lambda>p1.
                prepend
                  [Call ''EtaHENPlugin::StopKlogServer'', Call ''EtaHENPlugin::DisablePS5Debug'']
                  (and_then
                     (if registered p1 then UnregisterFromEtaHEN net_unreg p1
                      else Returned p1 [])
                     (\<lambda>p2.
                        (let (p3, l4) = (if connected p2 then DisconnectFromEtaHEN p2
                                         else (p2, []));
                             (p4, l5) = ShutdownIPC p3
                         in Returned (p4\<lparr> plugin_initialized := False \<rparr>) (l4 @ l5)))))))"

text \<open>
  The spec's words for the wire format, for comparison with the code: a message is
  length-prefixed when the bytes on the wire are the text with a length field in front
  of it.  Whatever the encoding of the length, the field takes at least one byte.
\<close>

definition length_prefixed :: "string \<Rightarrow> string \<Rightarrow> bool" where
  "length_prefixed wire txt =
     (length txt < length wire \<and> drop (length wire - length txt) wire = txt)"

definition sent_bytes :: "event list \<Rightarrow> string list" where
  "sent_bytes es = concat (map (\<lambda>e. case e of SockSend fd b \<Rightarrow> [b] | _ \<Rightarrow> []) es)"

section \<open>ps5\_audio\_manager.h, ps5\_audio\_manager.cpp\<close>

text \<open>
  \<open>PS5AudioDevice\<close> and \<open>PS5AudioStream\<close> are not part of the sources.  A device is
  the tuple of the arguments its constructor is given; a stream is opaque.  The
  pointers to the default devices are modelled by the devices they point to, and the
  \<open>float\<close> volume by the number it holds.
\<close>

datatype DeviceType = Output | Input

record PS5AudioDevice =
  device_type :: DeviceType
  device_id :: int
  device_name :: string
  is_default :: bool

datatype PS5AudioStream = PS5AudioStream

record PS5AudioManager =
  output_devices :: "PS5AudioDevice list"
  input_devices :: "PS5AudioDevice list"
  streams :: "PS5AudioStream list"
  default_output_device :: "PS5AudioDevice option"
  default_input_device :: "PS5AudioDevice option"
  audio_initialized :: bool
  master_volume :: rat
  is_muted :: bool
  is_3d_audio_enabled :: bool
  is_3d_audio_available :: bool

definition PS5AudioManager_new :: PS5AudioManager where
  "PS5AudioManager_new =
     \<lparr> output_devices = [], input_devices = [], streams = [],
       default_output_device = None, default_input_device = None,
       audio_initialized = False, master_volume = 1, is_muted = False,
       is_3d_audio_enabled = False, is_3d_audio_available = False \<rparr>"

definition InitializePS5AudioSystem :: "bool \<Rightarrow> bool \<times> event list" where
  "InitializePS5AudioSystem ps5 =
     (if ps5 then (True, [Log ''[PS5AudioManager] Initializing PS5 native audio system...''])
      else (True, [Log ''[PS5AudioManager] PS5 audio system initialized (development mode)'']))"

definition EnumerateAudioDevices :: "bool \<Rightarrow> PS5AudioManager \<Rightarrow> bool \<times> PS5AudioManager \<times> event list" where
  "EnumerateAudioDevices ps5 a =
     (let a0 = a\<lparr> output_devices := [], input_devices := [] \<rparr>;
          a1 =
            (if ps5 then
               (let main_output = \<lparr> device_type = Output, device_id = 0,
                                    device_name = ''Main Output (HDMI)'', is_default = True \<rparr>;
                    headphone_output = \<lparr> device_type = Output, device_id = 1,
                                         device_name = ''Headphones'', is_default = False \<rparr>;
                    mic_input = \<lparr> device_type = Input, device_id = 0,
                                  device_name = ''Microphone'', is_default = True \<rparr>
                in a0\<lparr> default_output_device := Some main_output,
                       output_devices := output_devices a0 @ [main_output, headphone_output],
                       default_input_device := Some mic_input,
                       input_devices := input_devices a0 @ [mic_input] \<rparr>)
             else
               (let mock_output = \<lparr> device_type = Output, device_id = 0,
                                    device_name = ''Mock Output'', is_default = True \<rparr>;
                    mock_input = \<lparr> device_type = Input, device_id = 0,
                                   device_name = ''Mock Input'', is_default = True \<rparr>
                in a0\<lparr> default_output_device := Some mock_output,
                       output_devices := output_devices a0 @ [mock_output],
                       default_input_device := Some mock_input,
                       input_devices := input_devices a0 @ [mock_input] \<rparr>))
      in (output_devices a1 \<noteq> [], a1,
          [Log ''[PS5AudioManager] Enumerating audio devices...'',
           Log ''[PS5AudioManager] Found '', Log ''[PS5AudioManager] Found '']))"

definition CleanupAudioDevices :: "PS5AudioManager \<Rightarrow> PS5AudioManager" where
  "CleanupAudioDevices a =
     a\<lparr> default_output_device := None, default_input_device := None,
       output_devices := [], input_devices := [] \<rparr>"

definition PS5AudioManager_Initialize ::
    "bool \<Rightarrow> PS5AudioManager \<Rightarrow> bool \<times> PS5AudioManager \<times> event list" where
  "PS5AudioManager_Initialize ps5 a =
     (if audio_initialized a then (True, a, [])
      else
        (let l0 = [Log ''[PS5AudioManager] Initializing PS5 Audio System...''];
             (ok1, l1) = InitializePS5AudioSystem ps5
         in if \<not> ok1 then
              (False, a, l0 @ l1 @ [Log ''[PS5AudioManager] Failed to initialize PS5 audio system''])
            else
              (let (ok2, a2, l2) = EnumerateAudioDevices ps5 a
               in if \<not> ok2 then
                    (False, a2,
                     l0 @ l1 @ l2 @ [Log ''[PS5AudioManager] Failed to enumerate audio devices''])
                  else
                    (True, a2\<lparr> is_3d_audio_available := ps5, audio_initialized := True \<rparr>,
                     l0 @ l1 @ l2 @
                     [Log ''[PS5AudioManager] Audio system initialized successfully'',
                      Log ''[PS5AudioManager] Output devices: '',
                      Log ''[PS5AudioManager] Input devices: '',
                      Log ''[PS5AudioManager] 3D Audio available: '']))))"

definition PS5AudioManager_Shutdown :: "PS5AudioManager \<Rightarrow> PS5AudioManager \<times> event list" where
  "PS5AudioManager_Shutdown a =
     (if \<not> audio_initialized a then (a, [])
      else
        (let l0 = [Log ''[PS5AudioManager] Shutting down PS5 Audio System...''];
             l1 = map (\<lambda>st. Call ''PS5AudioStream::Stop'') (streams a);
             a1 = a\<lparr> streams := [] \<rparr>;
             a2 = CleanupAudioDevices a1
         in (a2\<lparr> audio_initialized := False \<rparr>, l0 @ l1)))"

section \<open>ps5\_application.h, ps5\_application.cpp\<close>

text \<open>
  The application holds five subsystems.  The renderer and the audio manager are the
  objects modelled above.  \<open>PS5Frontend\<close> and \<open>EdenCoreIntegration\<close> are not part of
  the sources, and the application never reads the state of the input manager: the
  three are opaque, their methods are calls, and what their \<open>Initialize\<close>,
  \<open>LoadGame\<close> and \<open>StartEmulation\<close> return comes from the environment.  The
  \<open>float\<close> members hold the numbers computed for them; rounding is not modelled.
\<close>

datatype PS5InputManager = PS5InputManager
datatype PS5Frontend = PS5Frontend
datatype EdenCoreIntegration = EdenCoreIntegration

record PS5Application =
  renderer :: "PS5Renderer option"
  audio_manager :: "PS5AudioManager option"
  input_manager :: "PS5InputManager option"
  frontend :: "PS5Frontend option"
  eden_core :: "EdenCoreIntegration option"
  shutdown_requested :: bool
  app_initialized :: bool
  game_loaded :: bool
  emulation_running :: bool
  emulation_paused :: bool
  current_fps :: rat
  emulation_speed :: rat
  config_path :: string
  game_path :: string

definition PS5Application_new :: PS5Application where
  "PS5Application_new =
     \<lparr> renderer = None, audio_manager = None, input_manager = None, frontend = None,
       eden_core = None, shutdown_requested = False, app_initialized = False,
       game_loaded = False, emulation_running = False, emulation_paused = False,
       current_fps = 0, emulation_speed = 1, config_path = ''/data/eden/config'',
       game_path = [] \<rparr>"

text \<open>
  What the environment decides while the subsystems are initialised: the build, the
  contents of the renderer's uninitialised frame-buffer array, and the results of the
  \<open>Initialize\<close> methods that are not in the sources.
\<close>

record init_env =
  ps5_build :: bool
  junk0 :: FrameBuffer
  junk1 :: FrameBuffer
  junk2 :: FrameBuffer
  cmd_init_ok :: bool
  tex_init_ok :: bool
  shader_init_ok :: bool
  input_init_ok :: bool
  frontend_init_ok :: bool
  core_init_ok :: bool

definition PS5Renderer_dtor :: "bool \<Rightarrow> PS5Renderer option \<Rightarrow> event list" where
  "PS5Renderer_dtor ps5 p =
     (case p of None \<Rightarrow> []
      | Some r \<Rightarrow>
          (let (r', l) = (if renderer_initialized r then PS5Renderer_Shutdown ps5 r else (r, []))
           in l @ GNMWrapper_dtor ps5 (gnm_wrapper r')))"

definition PS5AudioManager_dtor :: "PS5AudioManager option \<Rightarrow> event list" where
  "PS5AudioManager_dtor p =
     (case p of None \<Rightarrow> []
      | Some a \<Rightarrow> (if audio_initialized a then snd (PS5AudioManager_Shutdown a) else []))"

definition InitializeSubsystems ::
    "init_env \<Rightarrow> PS5Application \<Rightarrow> bool \<times> PS5Application \<times> event list" where
  "InitializeSubsystems env s =
     (let l0 = [Log ''[PS5Application] Initializing subsystems...'',
                Log ''[PS5Application] Initializing graphics renderer...''];
          (ok1, r, l1) = PS5Renderer_Initialize (ps5_build env) (cmd_init_ok env)
                           (tex_init_ok env) (shader_init_ok env)
                           (PS5Renderer_new (junk0 env) (junk1 env) (junk2 env));
          s1 = s\<lparr> renderer := Some r \<rparr>;
          e1 = l0 @ PS5Renderer_dtor (ps5_build env) (renderer s) @ l1
      in if \<not> ok1 then
           (False, s1, e1 @ [Log ''[PS5Application] Failed to initialize graphics renderer''])
         else
     (let (ok2, a, l2) = PS5AudioManager_Initialize (ps5_build env) PS5AudioManager_new;
          s2 = s1\<lparr> audio_manager := Some a \<rparr>;
          e2 = e1 @ [Log ''[PS5Application] Initializing audio manager...''] @
               PS5AudioManager_dtor (audio_manager s1) @ l2
      in if \<not> ok2 then
           (False, s2, e2 @ [Log ''[PS5Application] Failed to initialize audio manager''])
         else
     (let s3 = s2\<lparr> input_manager := Some PS5InputManager \<rparr>;
          e3 = e2 @ [Log ''[PS5Application] Initializing input manager...'',
                     Call ''PS5InputManager::Initialize'']
      in if \<not> input_init_ok env then
           (False, s3, e3 @ [Log ''[PS5Application] Failed to initialize input manager''])
         else
     (let s4 = s3\<lparr> frontend := Some PS5Frontend \<rparr>;
          e4 = e3 @ [Log ''[PS5Application] Initializing frontend...'',
                     Call ''PS5Frontend::Initialize'']
      in if \<not> frontend_init_ok env then
           (False, s4, e4 @ [Log ''[PS5Application] Failed to initialize frontend''])
         else
     (let s5 = s4\<lparr> eden_core := Some EdenCoreIntegration \<rparr>;
          e5 = e4 @ [Log ''[PS5Application] Initializing Eden core...'',
                     Call ''EdenCoreIntegration::Initialize'']
      in if \<not> core_init_ok env then
           (False, s5, e5 @ [Log ''[PS5Application] Failed to initialize Eden core''])
         else
           (True, s5,
            e5 @ [Log ''[PS5Application] All subsystems initialized successfully'']))))))"

definition ShutdownSubsystems :: "bool \<Rightarrow> PS5Application \<Rightarrow> PS5Application \<times> event list" where
  "ShutdownSubsystems ps5 s =
     (let l0 = [Log ''[PS5Application] Shutting down subsystems...''];
          (s1, l1) = (case eden_core s of
                        Some c \<Rightarrow> (s\<lparr> eden_core := None \<rparr>, [Call ''EdenCoreIntegration::Shutdown''])
                      | None \<Rightarrow> (s, []));
          (s2, l2) = (case frontend s1 of
                        Some f \<Rightarrow> (s1\<lparr> frontend := None \<rparr>, [Call ''PS5Frontend::Shutdown''])
                      | None \<Rightarrow> (s1, []));
          (s3, l3) = (case input_manager s2 of
                        Some i \<Rightarrow> (s2\<lparr> input_manager := None \<rparr>, [Call ''PS5InputManager::Shutdown''])
                      | None \<Rightarrow> (s2, []));
          (s4, l4) = (case audio_manager s3 of
                        Some a \<Rightarrow>
                          (let (a', l) = PS5AudioManager_Shutdown a
                           in (s3\<lparr> audio_manager := None \<rparr>, l @ PS5AudioManager_dtor (Some a')))
                      | None \<Rightarrow> (s3, []));
          (s5, l5) = (case renderer s4 of
                        Some r \<Rightarrow>
                          (let (r', l) = PS5Renderer_Shutdown ps5 r
                           in (s4\<lparr> renderer := None \<rparr>, l @ PS5Renderer_dtor ps5 (Some r')))
                      | None \<Rightarrow> (s4, []))
      in (s5, l0 @ l1 @ l2 @ l3 @ l4 @ l5 @
              [Log ''[PS5Application] Subsystems shutdown complete'']))"

text \<open>
  \<open>ProcessCommandLine\<close>.  The loop runs over \<open>argv[1]\<close>, \<open>argv[2]\<close>, ...; an option
  that takes a value consumes the next argument when there is one.
\<close>

definition help_text :: "event list" where
  "help_text =
     [Log ''Eden Nintendo Switch Emulator - PS5 Port'', Log ''Usage: '', Log ''Options:'',
      Log ''  --game <path>    Load game from path'',
      Log ''  --config <path>  Use config directory'',
      Log ''  --help, -h       Show this help message'']"

fun ProcessCommandLine_loop ::
    "string list \<Rightarrow> PS5Application \<Rightarrow> bool \<times> PS5Application \<times> event list" where
  "ProcessCommandLine_loop [] s = (True, s, [])"
| "ProcessCommandLine_loop [arg] s =
     (if arg = ''--help'' \<or> arg = ''-h'' then
        (False, s, help_text)
      else (True, s, []))"
| "ProcessCommandLine_loop (arg # nxt # rest) s =
     (if arg = ''--game'' then
        (let (ok, s', l) = ProcessCommandLine_loop rest (s\<lparr> game_path := nxt \<rparr>)
         in (ok, s', Log ''[PS5Application] Game path specified: '' # l))
      else if arg = ''--config'' then
        (let (ok, s', l) = ProcessCommandLine_loop rest (s\<lparr> config_path := nxt \<rparr>)
         in (ok, s', Log ''[PS5Application] Config path specified: '' # l))
      else if arg = ''--help'' \<or> arg = ''-h'' then
        (False, s, help_text)
      else ProcessCommandLine_loop (nxt # rest) s)"

definition ProcessCommandLine ::
    "string list \<Rightarrow> PS5Application \<Rightarrow> bool \<times> PS5Application \<times> event list" where
  "ProcessCommandLine argv s = ProcessCommandLine_loop (drop 1 argv) s"

definition LoadSettings :: "event list" where
  "LoadSettings = [Log ''[PS5Application] Loading settings from: '']"

definition SaveSettings :: "event list" where
  "SaveSettings = [Log ''[PS5Application] Saving settings to: '']"

definition PS5Application_Initialize ::
    "init_env \<Rightarrow> string list \<Rightarrow> PS5Application \<Rightarrow> bool \<times> PS5Application \<times> event list" where
  "PS5Application_Initialize env argv s =
     (if app_initialized s then (True, s, [])
      else
        (let l0 = [Log ''[PS5Application] Initializing application...''];
             (ok1, s1, l1) = ProcessCommandLine argv s
         in if \<not> ok1 then
              (False, s1, l0 @ l1 @ [Log ''[PS5Application] Failed to process command line''])
            else
              (let (ok2, s2, l2) = InitializeSubsystems env s1
               in if \<not> ok2 then
                    (False, s2,
                     l0 @ l1 @ LoadSettings @ l2 @
                     [Log ''[PS5Application] Failed to initialize subsystems''])
                  else
                    (True, s2\<lparr> app_initialized := True \<rparr>,
                     l0 @ l1 @ LoadSettings @ l2 @
                     [Log ''[PS5Application] Application initialized successfully'']))))"

definition LoadGame ::
    "bool \<Rightarrow> string \<Rightarrow> PS5Application \<Rightarrow> bool \<times> PS5Application \<times> event list" where
  "LoadGame core_load_ok path s =
     (case eden_core s of
        None \<Rightarrow>
          (False, s, [Log ''[PS5Application] Cannot load game - Eden core not initialized''])
      | Some c \<Rightarrow>
          (if core_load_ok then
             (True, s\<lparr> game_loaded := True, game_path := path \<rparr>,
              [Log ''[PS5Application] Loading game: '', CallS ''EdenCoreIntegration::LoadGame'' path,
               Log ''[PS5Application] Game loaded successfully''])
           else
             (False, s,
              [Log ''[PS5Application] Loading game: '', CallS ''EdenCoreIntegration::LoadGame'' path,
               Log ''[PS5Application] Failed to load game''])))"

definition StopEmulation :: "PS5Application \<Rightarrow> PS5Application \<times> event list" where
  "StopEmulation s =
     (if \<not> emulation_running s then (s, [])
      else
        (s\<lparr> emulation_running := False, emulation_paused := False \<rparr>,
         Log ''[PS5Application] Stopping emulation...'' #
         (case eden_core s of
            Some c \<Rightarrow> [Call ''EdenCoreIntegration::StopEmulation''] | None \<Rightarrow> [])))"

definition UnloadGame :: "PS5Application \<Rightarrow> PS5Application \<times> event list" where
  "UnloadGame s =
     (if \<not> game_loaded s then (s, [])
      else
        (let l0 = [Log ''[PS5Application] Unloading game...''];
             (s1, l1) = (if emulation_running s then StopEmulation s else (s, []));
             l2 = (case eden_core s1 of
                     Some c \<Rightarrow> [Call ''EdenCoreIntegration::UnloadGame''] | None \<Rightarrow> [])
         in (s1\<lparr> game_loaded := False, game_path := [] \<rparr>, l0 @ l1 @ l2)))"

definition StartEmulation :: "bool \<Rightarrow> PS5Application \<Rightarrow> PS5Application \<times> event list" where
  "StartEmulation core_start_ok s =
     (if \<not> game_loaded s \<or> emulation_running s then (s, [])
      else
        (case eden_core s of
           None \<Rightarrow>
             (s, [Log ''[PS5Application] Starting emulation...'',
                  Log ''[PS5Application] Failed to start emulation''])
         | Some c \<Rightarrow>
             (if core_start_ok then
                (s\<lparr> emulation_running := True, emulation_paused := False \<rparr>,
                 [Log ''[PS5Application] Starting emulation...'',
                  Call ''EdenCoreIntegration::StartEmulation'',
                  Log ''[PS5Application] Emulation started''])
              else
                (s, [Log ''[PS5Application] Starting emulation...'',
                     Call ''EdenCoreIntegration::StartEmulation'',
                     Log ''[PS5Application] Failed to start emulation'']))))"

definition PauseEmulation :: "PS5Application \<Rightarrow> PS5Application \<times> event list" where
  "PauseEmulation s =
     (if \<not> emulation_running s \<or> emulation_paused s then (s, [])
      else (s\<lparr> emulation_paused := True \<rparr>, [Log ''[PS5Application] Pausing emulation...'']))"

definition ResumeEmulation :: "PS5Application \<Rightarrow> PS5Application \<times> event list" where
  "ResumeEmulation s =
     (if \<not> emulation_running s \<or> \<not> emulation_paused s then (s, [])
      else (s\<lparr> emulation_paused := False \<rparr>, [Log ''[PS5Application] Resuming emulation...'']))"

definition RequestShutdown :: "PS5Application \<Rightarrow> PS5Application \<times> event list" where
  "RequestShutdown s =
     (s\<lparr> shutdown_requested := True \<rparr>, [Log ''[PS5Application] Shutdown requested''])"

definition PS5Application_Shutdown :: "bool \<Rightarrow> PS5Application \<Rightarrow> PS5Application \<times> event list" where
  "PS5Application_Shutdown ps5 s =
     (if \<not> app_initialized s then (s, [])
      else
        (let l0 = [Log ''[PS5Application] Shutting down application...''];
             (s1, l1) = (if emulation_running s then StopEmulation s else (s, []));
             (s2, l2) = (if game_loaded s1 then UnloadGame s1 else (s1, []));
             (s3, l3) = ShutdownSubsystems ps5 s2
         in (s3\<lparr> app_initialized := False \<rparr>, l0 @ l1 @ l2 @ SaveSettings @ l3)))"

text \<open>
  The main loop reads \<open>steady_clock\<close> three times in an iteration.  The readings are
  ticks of one nanosecond, as in the standard libraries of the supported toolchains,
  and come from the environment together with \<open>signalled\<close>: whether the signal handler
  ran \<open>RequestShutdown\<close> during the iteration.  \<open>duration_cast\<close> truncates towards
  zero.  \<open>SleepFor d\<close> is \<open>sleep_for\<close> of \<open>d\<close> microseconds.
\<close>

record iter_env =
  t_frame_start :: int
  t_now :: int
  t_frame_end :: int
  signalled :: bool

definition duration_cast :: "int \<Rightarrow> int \<Rightarrow> int" where
  "duration_cast per d = (if 0 \<le> d then d div per else - ((- d) div per))"

definition target_frame_time :: int where
  "target_frame_time = 16667"

text \<open>
  The last block of the loop body, "frame limiting (target 60 FPS)": the measured
  duration of the frame in microseconds, and the sleep when it is below the target.
\<close>

definition frame_limiting :: "iter_env \<Rightarrow> event list" where
  "frame_limiting e =
     (let frame_duration = duration_cast 1000 (t_frame_end e - t_frame_start e)
      in if frame_duration < target_frame_time
         then [SleepFor (target_frame_time - frame_duration)] else [])"

text \<open>
  One pass through the body of the \<open>while\<close> loop of \<open>MainLoop\<close>.  The locals
  \<open>last_fps_time\<close> and \<open>frame_count\<close> travel with the application.  The result is
  \<open>None\<close> when \<open>Present\<close> reads outside the frame-buffer array.
\<close>

definition MainLoop_iteration ::
    "bool \<Rightarrow> iter_env \<Rightarrow> PS5Application \<times> int \<times> 32 word \<Rightarrow>
       ((PS5Application \<times> int \<times> 32 word) \<times> event list) option" where
  "MainLoop_iteration ps5 e st =
     (let (s, last_fps_time, frame_count) = st;
          l1 = (case input_manager s of
                  Some i \<Rightarrow> [Call ''PS5InputManager::Update''] | None \<Rightarrow> []);
          l2 = (case frontend s of
                  Some f \<Rightarrow> [Call ''PS5Frontend::Update''] | None \<Rightarrow> []);
          l3 = (if eden_core s \<noteq> None \<and> emulation_running s \<and> \<not> emulation_paused s
                then [Call ''EdenCoreIntegration::Update''] else []);
          rendered =
            (case renderer s of
               None \<Rightarrow> Some (s, [])
             | Some r \<Rightarrow>
                 (let (r1, lb) = BeginFrame r;
                      lc = (if eden_core s \<noteq> None \<and> emulation_running s
                            then [Call ''EdenCoreIntegration::Render''] else []);
                      lf = (case frontend s of
                              Some f \<Rightarrow> [Call ''PS5Frontend::Render''] | None \<Rightarrow> []);
                      (r2, le) = EndFrame r1
                  in case PS5Renderer_Present ps5 r2 of
                       None \<Rightarrow> None
                     | Some (r3, lp) \<Rightarrow>
                         Some (s\<lparr> renderer := Some r3 \<rparr>, lb @ lc @ lf @ le @ lp)))
      in case rendered of
           None \<Rightarrow> None
         | Some (s1, l4) \<Rightarrow>
             (let frame_count1 = frame_count + 1;
                  fps_elapsed = duration_cast 1000000 (t_now e - last_fps_time);
                  (s2, last_fps_time2, frame_count2) =
                    (if fps_elapsed \<ge> 1000 then
                       (s1\<lparr> current_fps :=
                              of_nat (unat frame_count1) / (of_int fps_elapsed / 1000) \<rparr>,
                        t_now e, 0)
                     else (s1, last_fps_time, frame_count1));
                  l5 = frame_limiting e
              in Some ((s2, last_fps_time2, frame_count2), l1 @ l2 @ l3 @ l4 @ l5)))"

fun MainLoop_loop ::
    "bool \<Rightarrow> iter_env list \<Rightarrow> PS5Application \<times> int \<times> 32 word \<Rightarrow> PS5Application outcome" where
  "MainLoop_loop ps5 [] (s, t, n) =
     (if shutdown_requested s then Returned s [] else Running [])"
| "MainLoop_loop ps5 (e # es) (s, t, n) =
     (if shutdown_requested s then Returned s []
      else
        (case MainLoop_iteration ps5 e (s, t, n) of
           None \<Rightarrow> Undefined []
         | Some ((s1, t1, n1), l) \<Rightarrow>
             prepend l
               (MainLoop_loop ps5 es
                  (s1\<lparr> shutdown_requested := shutdown_requested s1 \<or> signalled e \<rparr>, t1, n1))))"

text \<open>\<open>t0\<close> is the clock reading that initialises \<open>last_fps_time\<close>.\<close>

definition MainLoop :: "bool \<Rightarrow> int \<Rightarrow> iter_env list \<Rightarrow> PS5Application \<Rightarrow> PS5Application outcome" where
  "MainLoop ps5 t0 es s = MainLoop_loop ps5 es (s, t0, 0)"

text \<open>The block "Load game if specified" of \<open>Run\<close>.\<close>

definition Run_load_game :: "bool \<Rightarrow> bool \<Rightarrow> PS5Application \<Rightarrow> PS5Application \<times> event list" where
  "Run_load_game core_load_ok core_start_ok s =
     (if game_path s \<noteq> [] then
        (let (ok, s', l) = LoadGame core_load_ok (game_path s) s
         in if ok then
              (let (s'', l') = StartEmulation core_start_ok s'
               in (s'', l @ [Log ''[PS5Application] Game loaded successfully, starting emulation...''] @ l'))
            else (s', l @ [Log ''[PS5Application] Failed to load game: '']))
      else (s, []))"

definition Run ::
    "bool \<Rightarrow> bool \<Rightarrow> bool \<Rightarrow> int \<Rightarrow> iter_env list \<Rightarrow> PS5Application \<Rightarrow>
       (int \<times> PS5Application) outcome" where
  "Run ps5 core_load_ok core_start_ok t0 es s =
     (if \<not> app_initialized s then
        Returned (- 1, s) [Log ''[PS5Application] Cannot run - not initialized'']
      else
        (let l0 = [Log ''[PS5Application] Starting main loop...''];
             (s1, l1) = Run_load_game core_load_ok core_start_ok s
         in case MainLoop ps5 t0 es s1 of
              Returned s2 l2 \<Rightarrow>
                Returned (0, s2) (l0 @ l1 @ l2 @ [Log ''[PS5Application] Main loop finished''])
            | Running l2 \<Rightarrow> Running (l0 @ l1 @ l2)
            | Undefined l2 \<Rightarrow> Undefined (l0 @ l1 @ l2)
            | Killed l2 \<Rightarrow> Killed (l0 @ l1 @ l2)
            | Blocked l2 \<Rightarrow> Blocked (l0 @ l1 @ l2)))"

section \<open>ps5\_system.h\<close>

text \<open>The static members of \<open>PS5System\<close>.\<close>

record PS5System =
  sys_initialized :: bool
  sys_etahen_available :: bool
  high_performance_mode :: bool

definition PS5System_init :: PS5System where
  "PS5System_init =
     \<lparr> sys_initialized = False, sys_etahen_available = False, high_performance_mode = False \<rparr>"

definition InitializeEtaHEN :: "bool \<Rightarrow> bool \<times> event list" where
  "InitializeEtaHEN ps5 =
     (if ps5 then (False, [Log ''[PS5System] Attempting etaHEN initialization...''])
      else (False, []))"

definition PS5System_Initialize :: "bool \<Rightarrow> PS5System \<Rightarrow> bool \<times> PS5System \<times> event list" where
  "PS5System_Initialize ps5 sys =
     (if sys_initialized sys then (True, sys, [])
      else
        (let l0 = [Log ''[PS5System] Initializing PS5 Platform Layer...''];
             (sys1, l1) =
               (if ps5 then
                  (let (av, l) = InitializeEtaHEN ps5
                   in (sys\<lparr> sys_etahen_available := av \<rparr>, l))
                else
                  (sys\<lparr> sys_etahen_available := False \<rparr>,
                   [Log ''[PS5System] Running in development mode (not on actual PS5)'']))
         in (True, sys1\<lparr> sys_initialized := True \<rparr>,
             l0 @ l1 @
             [Log ''[PS5System] Platform layer initialized successfully'',
              Log ''[PS5System] etaHEN Available: ''])))"

definition ReleaseHighPerformanceMode :: "bool \<Rightarrow> PS5System \<Rightarrow> PS5System \<times> event list" where
  "ReleaseHighPerformanceMode ps5 sys =
     (if \<not> high_performance_mode sys then (sys, [])
      else
        (sys\<lparr> high_performance_mode := False \<rparr>,
         if ps5 then [Log ''[PS5System] Releasing high performance mode...''] else []))"

definition PS5System_Shutdown :: "bool \<Rightarrow> PS5System \<Rightarrow> PS5System \<times> event list" where
  "PS5System_Shutdown ps5 sys =
     (if \<not> sys_initialized sys then (sys, [])
      else
        (let (sys1, l1) = (if high_performance_mode sys
                           then ReleaseHighPerformanceMode ps5 sys else (sys, []))
         in (sys1\<lparr> sys_initialized := False \<rparr>,
             Log ''[PS5System] Shutting down PS5 Platform Layer...'' # l1)))"

section \<open>main.cpp\<close>

text \<open>
  Everything \<open>main\<close> gets from outside: the build and the answers of the subsystems,
  the command line, what the socket layer returns to the plugin, the process id, what
  the emulator core answers, and the clock readings and signals of the main loop.
  Signals are taken to arrive while the main loop runs.  What the destructors of the
  global objects do after \<open>main\<close> has returned is not part of the model.
\<close>

record main_env =
  m_init :: init_env
  m_argv :: "string list"
  m_sock_ret :: int
  m_conn_ret :: int
  m_register :: ipc_reply
  m_pid :: int
  m_jailbreak :: ipc_reply
  m_data_access :: ipc_reply
  m_stop_ftp :: ipc_reply
  m_unregister :: ipc_reply
  m_core_load_ok :: bool
  m_core_start_ok :: bool
  m_t0 :: int
  m_iters :: "iter_env list"

definition PrintBanner :: "event list" where
  "PrintBanner =
     [Log ''============================================'',
      Log ''     Eden Nintendo Switch Emulator'',
      Log ''           PlayStation 5 Port'',
      Log ''============================================'',
      Log ''Version: 1.0.0-PS5'',
      Log ''Build Date: '',
      Log ''Platform: PlayStation 5 (Homebrew)'',
      Log ''============================================'',
      Log []]"

text \<open>
  The end of \<open>main\<close>, from the return of \<open>Run\<close>: the result is logged and the
  application, the plugin and the platform are shut down.  When the run has not
  returned there is nothing to do.
\<close>

definition main_cleanup ::
    "main_env \<Rightarrow> PS5System \<Rightarrow> EtaHENPlugin \<Rightarrow> (int \<times> PS5Application) outcome \<Rightarrow> int outcome" where
  "main_cleanup env sys plugin out =
     (case out of
        Returned (result, app1) l3 \<Rightarrow>
          (let ps5 = ps5_build (m_init env);
               (app2, l4) = PS5Application_Shutdown ps5 app1
           in prepend
                (l3 @
                 [Log ''[Main] Application finished with result: '',
                  Log ''[Main] Shutting down...''] @ l4)
                (and_then (EtaHENPlugin_Shutdown (m_stop_ftp env) (m_unregister env) plugin)
                   (\<lambda>plugin'.
                      (let (sys', l6) = PS5System_Shutdown ps5 sys
                       in Returned result (l6 @ [Log ''[Main] Eden PS5 shutdown complete''])))))
      | Running l3 \<Rightarrow> Running l3
      | Undefined l3 \<Rightarrow> Undefined l3
      | Killed l3 \<Rightarrow> Killed l3
      | Blocked l3 \<Rightarrow> Blocked l3)"

text \<open>
  \<open>main\<close> from "Create and initialize PS5 application" on: the application is
  created, initialised and run.
\<close>

definition main_app :: "main_env \<Rightarrow> PS5System \<Rightarrow> EtaHENPlugin \<Rightarrow> int outcome" where
  "main_app env sys plugin =
     (let ps5 = ps5_build (m_init env);
          l0 = [Log ''[Main] Creating PS5 application...''];
          (ok, app, l1) = PS5Application_Initialize (m_init env) (m_argv env) PS5Application_new
      in if \<not> ok then
           Returned (- 1) (l0 @ l1 @ [Log ''[Main] Failed to initialize PS5 application''])
         else
           (let l2 = [Log ''[Main] Eden PS5 initialized successfully!'',
                      Log ''[Main] Starting emulator...'']
            in prepend (l0 @ l1 @ l2)
                 (main_cleanup env sys plugin
                    (Run ps5 (m_core_load_ok env) (m_core_start_ok env) (m_t0 env)
                       (m_iters env) app))))"

text \<open>The block "Check if we're jailbroken".\<close>

definition jailbreak_block :: "main_env \<Rightarrow> EtaHENPlugin \<Rightarrow> unit outcome" where
  "jailbreak_block env plugin =
     (if etahen_available plugin then
        prepend [Log ''[Main] etaHEN detected - requesting jailbreak...'']
          (and_then (RequestJailbreak (m_jailbreak env) (m_pid env) (- 1) plugin)
             (\<lambda>jok.
                if jok then
                  prepend [Log ''[Main] Jailbreak successful!'']
                    (and_then (EnableDataAccess (m_data_access env) plugin)
                       (\<lambda>dok. Returned () []))
                else
                  Returned () [Log ''[Main] Warning: Jailbreak failed, limited functionality'']))
      else
        Returned ()
          [Log ''[Main] Warning: etaHEN not detected - running with limited functionality''])"

text \<open>
  \<open>main\<close> from the point where \<open>etahen.Initialize()\<close> has returned \<open>eok\<close> and left
  the plugin as \<open>plugin\<close>.
\<close>

definition main_after_etahen :: "main_env \<Rightarrow> PS5System \<Rightarrow> bool \<Rightarrow> EtaHENPlugin \<Rightarrow> int outcome" where
  "main_after_etahen env sys eok plugin =
     prepend
       (if \<not> eok
        then [Log ''[Main] Warning: etaHEN integration failed, continuing anyway...'']
        else [])
       (and_then (jailbreak_block env plugin) (\<lambda>u. main_app env sys plugin))"

definition main :: "main_env \<Rightarrow> int outcome" where
  "main env =
     (let ps5 = ps5_build (m_init env);
          l0 = PrintBanner @ [CallS ''signal'' ''SIGINT'', CallS ''signal'' ''SIGTERM''] @
               [if ps5 then Log ''[Main] Running on PlayStation 5''
                else Log ''[Main] Running in development environment'',
                Log ''[Main] Initializing PS5 platform...''];
          (pok, sys, l1) = PS5System_Initialize ps5 PS5System_init
      in if \<not> pok then
           Returned (- 1) (l0 @ l1 @ [Log ''[Main] Failed to initialize PS5 platform''])
         else
           prepend (l0 @ l1 @ [Log ''[Main] Initializing etaHEN integration...''])
             (and_then
                (EtaHENPlugin_Initialize ps5 (m_sock_ret env) (m_conn_ret env) (m_register env)
                   EtaHENPlugin_new)
                (\<lambda>(eok, plugin). main_after_etahen env sys eok plugin)))"

section \<open>Notions used in the properties\<close>

text \<open>
  Rounding a natural number up to the next multiple of \<open>a\<close>, the arithmetic meaning of
  the comment \<open>Align offset\<close> in \<open>Impl::AllocateMemory\<close>.
\<close>

definition round_up :: "nat \<Rightarrow> nat \<Rightarrow> nat" where
  "round_up n a = ((n + a - 1) div a) * a"

text \<open>
  The emulation state machine: the invariant, and the public operations that move the
  three flags, each with what the environment answers to it.
\<close>

definition emulation_invariant :: "PS5Application \<Rightarrow> bool" where
  "emulation_invariant s =
     ((emulation_paused s \<longrightarrow> emulation_running s) \<and> (emulation_running s \<longrightarrow> game_loaded s))"

datatype app_op =
    OpLoadGame bool string
  | OpUnloadGame
  | OpStartEmulation bool
  | OpPauseEmulation
  | OpResumeEmulation
  | OpStopEmulation
  | OpShutdown bool

fun run_op :: "app_op \<Rightarrow> PS5Application \<Rightarrow> PS5Application" where
  "run_op (OpLoadGame core_load_ok path) s = fst (snd (LoadGame core_load_ok path s))"
| "run_op OpUnloadGame s = fst (UnloadGame s)"
| "run_op (OpStartEmulation core_start_ok) s = fst (StartEmulation core_start_ok s)"
| "run_op OpPauseEmulation s = fst (PauseEmulation s)"
| "run_op OpResumeEmulation s = fst (ResumeEmulation s)"
| "run_op OpStopEmulation s = fst (StopEmulation s)"
| "run_op (OpShutdown ps5) s = fst (PS5Application_Shutdown ps5 s)"

fun run_ops :: "app_op list \<Rightarrow> PS5Application \<Rightarrow> PS5Application" where
  "run_ops [] s = s"
| "run_ops (op # ops) s = run_ops ops (run_op op s)"

text \<open>
  What \<open>ProcessCommandLine\<close> does to the two paths: each is overridden by the last
  value the command line gives for it, or left alone.
\<close>

definition override :: "string option \<Rightarrow> string option \<Rightarrow> PS5Application \<Rightarrow> PS5Application" where
  "override g c s =
     s\<lparr> game_path := (case g of None \<Rightarrow> game_path s | Some x \<Rightarrow> x),
        config_path := (case c of None \<Rightarrow> config_path s | Some x \<Rightarrow> x) \<rparr>"

text \<open>
  \<open>BeginFrames n\<close> is \<open>n\<close> calls of \<open>BeginFrame\<close> in a row, and \<open>presented\<close>
  picks the frames handed to the display out of a trace.
\<close>

primrec BeginFrames :: "nat \<Rightarrow> PS5Renderer \<Rightarrow> PS5Renderer" where
  "BeginFrames 0 r = r"
| "BeginFrames (Suc n) r = fst (BeginFrame (BeginFrames n r))"

definition presented :: "event list \<Rightarrow> (64 word \<times> 32 word \<times> 32 word) list" where
  "presented es =
     concat (map (\<lambda>e. case e of GnmPresent a w h \<Rightarrow> [(a, w, h)] | _ \<Rightarrow> []) es)"

definition fb_zero :: FrameBuffer where
  "fb_zero = \<lparr> color_buffer_addr = 0, depth_buffer_addr = 0, width = 0, height = 0 \<rparr>"

text \<open>
  An environment for the examples: the development build, zeroed memory, and every
  subsystem outside the sources initialising successfully.
\<close>

definition dev_env :: init_env where
  "dev_env =
     \<lparr> ps5_build = False, junk0 = fb_zero, junk1 = fb_zero, junk2 = fb_zero,
       cmd_init_ok = True, tex_init_ok = True, shader_init_ok = True,
       input_init_ok = True, frontend_init_ok = True, core_init_ok = True \<rparr>"

text \<open>
  Projections of a trace: the sleeps it holds, and the names of the calls it makes to
  the collaborators of the main loop, a frame handed to the display counting as a call
  of \<open>GNMWrapper::Present\<close>.  \<open>iteration_calls\<close> is the order of one iteration as the
  claim gives it, and \<open>subsystems_ready\<close> says that the five subsystems exist and the
  renderer has its wrapper, its command buffer and its three frame buffers, as after
  a successful \<open>Initialize\<close>.
\<close>

definition sleeps :: "event list \<Rightarrow> int list" where
  "sleeps es = concat (map (\<lambda>e. case e of SleepFor d \<Rightarrow> [d] | _ \<Rightarrow> []) es)"

definition call_names :: "event list \<Rightarrow> string list" where
  "call_names es =
     concat (map (\<lambda>e. case e of Call n \<Rightarrow> [n]
                          | GnmPresent a w h \<Rightarrow> [''GNMWrapper::Present'']
                          | _ \<Rightarrow> []) es)"

definition iteration_calls :: "bool \<Rightarrow> bool \<Rightarrow> string list" where
  "iteration_calls running paused =
     [''PS5InputManager::Update'', ''PS5Frontend::Update''] @
     (if running \<and> \<not> paused then [''EdenCoreIntegration::Update''] else []) @
     [''PS5CommandBuffer::Begin''] @
     (if running then [''EdenCoreIntegration::Render''] else []) @
     [''PS5Frontend::Render'', ''PS5CommandBuffer::End'', ''GNMWrapper::Present'']"

definition subsystems_ready :: "PS5Application \<Rightarrow> bool" where
  "subsystems_ready s =
     (case renderer s of
        None \<Rightarrow> False
      | Some r \<Rightarrow>
          gnm_wrapper r \<noteq> None \<and> command_buffer r \<noteq> None \<and>
          length (frame_buffers r) = 3 \<and>
          input_manager s \<noteq> None \<and> frontend s \<noteq> None \<and> eden_core s \<noteq> None)"

definition ready_app :: PS5Application where
  "ready_app =
     PS5Application_new
       \<lparr> renderer := Some ((PS5Renderer_new fb_zero fb_zero fb_zero)
                            \<lparr> gnm_wrapper := Some GNMWrapper_new,
                              command_buffer := Some PS5CommandBuffer \<rparr>),
         input_manager := Some PS5InputManager,
         frontend := Some PS5Frontend,
         eden_core := Some EdenCoreIntegration,
         game_loaded := True, emulation_running := True \<rparr>"

text \<open>
  An exchange with the daemon fails, in the sense that \<open>SendIPCCommand\<close> tests for,
  when its \<open>send\<close> returns a negative value, or its \<open>send\<close> succeeds and its
  \<open>recv\<close> returns a negative value.  It returns when its \<open>send\<close> returns and,
  unless the \<open>send\<close> has failed, its \<open>recv\<close> returns.  The exchanges \<open>main\<close>
  can make before it creates the application are the registration, the jailbreak
  request and the request for access to \<open>/data\<close>.
\<close>

definition exchange_fails :: "ipc_reply \<Rightarrow> bool" where
  "exchange_fails net =
     (case send_ret net of
        SendSigpipe \<Rightarrow> False
      | SendReturns sent \<Rightarrow>
          sent < 0 \<or>
          (case recv_ret net of RecvBlocks \<Rightarrow> False | RecvReturns got \<Rightarrow> got < 0))"

definition exchange_returns :: "ipc_reply \<Rightarrow> bool" where
  "exchange_returns net =
     (case send_ret net of
        SendSigpipe \<Rightarrow> False
      | SendReturns sent \<Rightarrow> sent < 0 \<or> recv_ret net \<noteq> RecvBlocks)"

definition startup_exchanges_return :: "main_env \<Rightarrow> bool" where
  "startup_exchanges_return env =
     (exchange_returns (m_register env) \<and> exchange_returns (m_jailbreak env) \<and>
      exchange_returns (m_data_access env))"

text \<open>An exchange whose \<open>send\<close> returns \<open>- 1\<close>.\<close>

definition failed :: ipc_reply where
  "failed = \<lparr> send_ret = SendReturns (- 1), recv_ret = RecvReturns (- 1), recv_data = [] \<rparr>"

text \<open>
  An environment for \<open>main\<close> on the console in which the daemon accepts the
  connection and then fails the plugin: the registration cannot be sent, and the
  receive of the jailbreak request fails.  The signal arrives in the first iteration
  of the main loop.
\<close>

definition failing_daemon_env :: main_env where
  "failing_daemon_env =
     \<lparr> m_init = dev_env\<lparr> ps5_build := True \<rparr>, m_argv = [''eden''],
       m_sock_ret = 3, m_conn_ret = 0,
       m_register = failed,
       m_pid = 42,
       m_jailbreak = \<lparr> send_ret = SendReturns 12, recv_ret = RecvReturns (- 1),
                       recv_data = [] \<rparr>,
       m_data_access = failed,
       m_stop_ftp = failed,
       m_unregister = failed,
       m_core_load_ok = True, m_core_start_ok = True, m_t0 = 0,
       m_iters = [\<lparr> t_frame_start = 0, t_now = 5000000, t_frame_end = 5000999,
                    signalled = True \<rparr>] \<rparr>"

text \<open>
  The plugin as its \<open>Initialize\<close> leaves it in that environment: initialised and
  connected on socket 3, the daemon marked available, and not registered.
\<close>

definition failing_daemon_plugin :: EtaHENPlugin where
  "failing_daemon_plugin =
     EtaHENPlugin_new
       \<lparr> plugin_initialized := True, etahen_available := True, connected := True,
         ipc_socket := 3 \<rparr>"

text \<open>
  A daemon that accepts the connection and never answers: the registration is sent,
  and its \<open>recv\<close> never returns.
\<close>

definition silent_daemon :: ipc_reply where
  "silent_daemon = \<lparr> send_ret = SendReturns 55, recv_ret = RecvBlocks, recv_data = [] \<rparr>"

text \<open>
  An environment for \<open>main\<close> on the console in which the daemon accepts the
  connection and closes it.  The registration is sent into the closed connection and
  its \<open>recv\<close> returns \<open>0\<close>, the end of the stream; the \<open>send\<close> of the jailbreak
  request then raises \<open>SIGPIPE\<close>.
\<close>

definition closing_daemon_env :: main_env where
  "closing_daemon_env =
     failing_daemon_env
       \<lparr> m_register := \<lparr> send_ret = SendReturns 55, recv_ret = RecvReturns 0,
                          recv_data = [] \<rparr>,
         m_jailbreak := \<lparr> send_ret = SendSigpipe, recv_ret = RecvBlocks, recv_data = [] \<rparr> \<rparr>"

section \<open>Claims\<close>

subsection \<open>The GPU memory allocator\<close>

text \<open>
  C1.  The claim: the allocator is a bump-pointer allocator; every call returns the base
  address plus the current offset rounded up to the (power-of-two) alignment, the offset
  never decreases, and allocations of positive size never overlap.  The code does not do
  this once the offset reaches 4 GiB: the mask \<open>~(alignment - 1)\<close> is a 32-bit value,
  so the \<open>&\<close> clears the upper 32 bits of the rounded offset.  Three calls from the
  freshly constructed wrapper show it: allocations of \<open>0xFFFFF000\<close>, \<open>0x2000\<close> and
  \<open>0x1000\<close> bytes, each aligned to 4096.  The third call finds the offset
  \<open>0x100001000\<close>, returns the base plus \<open>0x1000\<close> (not the base plus
  \<open>0x100001000\<close>), an address inside the first allocation, and leaves the offset at
  \<open>0x2000\<close>, below its previous value.
\<close>

theorem AllocateGPUMemory_wraps_at_4GiB:
  "(let (a1, w1) = GNMWrapper_AllocateGPUMemory 0xFFFFF000 4096 GNMWrapper_new;
        (a2, w2) = GNMWrapper_AllocateGPUMemory 0x2000 4096 w1;
        (a3, w3) = GNMWrapper_AllocateGPUMemory 0x1000 4096 w2
    in a1 = 0x100000000 \<and> gpu_memory_offset (impl w1) = 0xFFFFF000
     \<and> a2 = 0x1FFFFF000 \<and> gpu_memory_offset (impl w2) = 0x100001000
     \<and> a3 = 0x100001000 \<and> gpu_memory_offset (impl w3) = 0x2000
     \<and> a3 \<noteq> gpu_memory_base (impl w2) + gpu_memory_offset (impl w2)
     \<and> gpu_memory_offset (impl w3) < gpu_memory_offset (impl w2)
     \<and> a1 \<le> a3 \<and> a3 < a1 + 0xFFFFF000)"
  by (simp add: GNMWrapper_AllocateGPUMemory_def AllocateMemory_def GNMWrapper_new_def
      Impl_init_def)

lemma high_bits_clear:
  fixes x :: "64 word"
  assumes "unat x < 2 ^ 32" and "bit x n"
  shows "n < 32"
proof -
  have t: "take_bit 32 (unat x) = unat x"
    using assms(1) by (simp add: take_bit_nat_eq_self_iff)
  have "bit (unat x) n" using assms(2) by (simp add: bit_unsigned_iff)
  then have "bit (take_bit 32 (unat x)) n" by (simp add: t)
  then show ?thesis by (simp add: bit_take_bit_iff)
qed

lemma mask_low:
  fixes x :: "64 word"
  assumes "unat x < 2 ^ 32" and "k < 32"
  shows "x AND ucast (NOT ((2 ^ k :: 32 word) - 1)) = push_bit k (drop_bit k x)"
proof (rule bit_word_eqI)
  fix n assume "n < LENGTH(64)"
  have m: "(2 ^ k :: 32 word) - 1 = mask k" by (simp add: mask_eq_exp_minus_1)
  have hb: "bit x n \<Longrightarrow> n < 32" using high_bits_clear [OF assms(1)] .
  show "bit (x AND ucast (NOT ((2 ^ k :: 32 word) - 1))) n = bit (push_bit k (drop_bit k x)) n"
    using hb \<open>n < LENGTH(64)\<close> unfolding m by (auto simp: bit_simps)
qed

lemma unat_push_drop:
  fixes x :: "64 word"
  shows "unat (push_bit k (drop_bit k x)) = (unat x div 2 ^ k) * 2 ^ k"
proof -
  have le: "(unat x div 2 ^ k) * 2 ^ k \<le> unat x" by simp
  have "unat x < 2 ^ 64" using unsigned_less [of x] by simp
  then have lt: "(unat x div 2 ^ k) * 2 ^ k < 2 ^ 64" using le by linarith
  have "unat (push_bit k (drop_bit k x)) = take_bit 64 (push_bit k (drop_bit k (unat x)))"
    by (simp add: unsigned_push_bit_eq unat_drop_bit_eq)
  also have "\<dots> = take_bit 64 ((unat x div 2 ^ k) * 2 ^ k)"
    by (simp add: push_bit_eq_mult drop_bit_eq_div)
  also have "\<dots> = (unat x div 2 ^ k) * 2 ^ k"
    using lt by (simp add: take_bit_nat_eq_self_iff)
  finally show ?thesis .
qed

text \<open>
  Below 4 GiB the allocator is the bump-pointer allocator of the claim.  For a power-of-two
  alignment \<open>2 ^ k\<close> that fits in the 32-bit parameter, and an offset with
  \<open>offset + alignment \<le> 2 ^ 32\<close>, \<open>Impl::AllocateMemory\<close> returns the base address
  plus the offset rounded up to the next multiple of the alignment, and leaves the offset
  at that rounded value plus the size.
\<close>

theorem AllocateMemory_below_4GiB:
  assumes k: "k < 32" and fit: "unat (gpu_memory_offset s) + 2 ^ k \<le> 2 ^ 32"
  shows "AllocateMemory sz (2 ^ k) s =
           (gpu_memory_base s + of_nat (round_up (unat (gpu_memory_offset s)) (2 ^ k)),
            s\<lparr>gpu_memory_offset :=
                of_nat (round_up (unat (gpu_memory_offset s)) (2 ^ k)) + sz\<rparr>)"
proof -
  let ?off = "gpu_memory_offset s"
  let ?x = "?off + ucast (2 ^ k :: 32 word) - 1"
  have lt32: "(2::nat) ^ k < 2 ^ 32" using k by (rule power_strict_increasing) simp
  have "(2 ^ k :: 32 word) = of_nat (2 ^ k)" by simp
  then have "unat (2 ^ k :: 32 word) = take_bit 32 ((2::nat) ^ k)"
    by (simp only: unsigned_of_nat) simp
  also have "\<dots> = 2 ^ k"
    using lt32 by (rule take_bit_nat_eq_self)
  finally have p32: "unat (2 ^ k :: 32 word) = (2::nat) ^ k" .
  have "(2::nat) ^ 32 < 2 ^ 64" by (rule power_strict_increasing) simp_all
  with lt32 have lt64': "(2::nat) ^ k < 2 ^ 64" by (rule less_trans)
  have "unat (ucast (2 ^ k :: 32 word) :: 64 word) = take_bit 64 (unat (2 ^ k :: 32 word))"
    by (simp only: unsigned_ucast_eq) simp
  also have "\<dots> = take_bit 64 ((2::nat) ^ k)" by (simp only: p32)
  also have "\<dots> = 2 ^ k" using lt64' by (rule take_bit_nat_eq_self)
  finally have u: "unat (ucast (2 ^ k :: 32 word) :: 64 word) = 2 ^ k" .
  have pos: "(0::nat) < 2 ^ k" by simp
  have lt64: "unat ?off + 2 ^ k < 2 ^ 64" using fit by simp
  have s: "unat (?off + ucast (2 ^ k :: 32 word)) = unat ?off + 2 ^ k"
    using lt64 u by (simp add: unat_add_lem [THEN iffD1])
  have nz: "?off + ucast (2 ^ k :: 32 word) \<noteq> 0"
    using s pos by (metis add_is_0 less_numeral_extra(3) unat_0)
  have x: "unat ?x = unat ?off + 2 ^ k - 1"
    using unat_minus_one [OF nz] s by simp
  have xlt: "unat ?x < 2 ^ 32" using x fit pos by linarith
  have "?x AND ucast (NOT ((2 ^ k :: 32 word) - 1)) = push_bit k (drop_bit k ?x)"
    using mask_low [OF xlt k] .
  moreover have "push_bit k (drop_bit k ?x) = of_nat (round_up (unat ?off) (2 ^ k))"
  proof -
    have "unat (push_bit k (drop_bit k ?x)) = round_up (unat ?off) (2 ^ k)"
      by (simp add: unat_push_drop x round_up_def)
    then have "(of_nat (unat (push_bit k (drop_bit k ?x))) :: 64 word) =
        of_nat (round_up (unat ?off) (2 ^ k))" by (rule arg_cong)
    then show ?thesis by simp
  qed
  ultimately have a: "?x AND ucast (NOT ((2 ^ k :: 32 word) - 1)) =
      of_nat (round_up (unat ?off) (2 ^ k))" by simp
  show ?thesis using a by (simp add: AllocateMemory_def Let_def)
qed

theorem AllocateMemory_below_4GiB_witness:
  "(12::nat) < 32 \<and>
   unat (gpu_memory_offset (Impl_init\<lparr>gpu_memory_offset := 0x7E9001\<rparr>)) + 2 ^ 12 \<le> 2 ^ 32 \<and>
   AllocateMemory 0x7E9000 (2 ^ 12) (Impl_init\<lparr>gpu_memory_offset := 0x7E9001\<rparr>) =
     (0x1007EA000, Impl_init\<lparr>gpu_memory_offset := 0xFD3000\<rparr>)"
proof -
  let ?s = "Impl_init\<lparr>gpu_memory_offset := 0x7E9001\<rparr>"
  have h1: "(12::nat) < 32" by simp
  have h2: "unat (gpu_memory_offset ?s) + 2 ^ 12 \<le> 2 ^ 32" by simp
  have r: "round_up (unat (gpu_memory_offset ?s)) (2 ^ 12) = 0x7EA000"
    by (simp add: round_up_def)
  have b: "gpu_memory_base ?s = 0x100000000" by (simp add: Impl_init_def)
  have "AllocateMemory 0x7E9000 (2 ^ 12) ?s =
          (gpu_memory_base ?s + of_nat (round_up (unat (gpu_memory_offset ?s)) (2 ^ 12)),
           ?s\<lparr>gpu_memory_offset :=
               of_nat (round_up (unat (gpu_memory_offset ?s)) (2 ^ 12)) + 0x7E9000\<rparr>)"
    by (rule AllocateMemory_below_4GiB [OF h1 h2])
  then have "AllocateMemory 0x7E9000 (2 ^ 12) ?s =
          (0x1007EA000, Impl_init\<lparr>gpu_memory_offset := 0xFD3000\<rparr>)"
    unfolding r b by simp
  with h1 h2 show ?thesis by blast
qed

subsection \<open>Frame management\<close>

lemma BeginFrame_fields:
  "current_frame (fst (BeginFrame r)) = current_frame r + 1"
  "current_frame_buffer (fst (BeginFrame r)) = ucast (current_frame r + 1) mod 3"
  "frame_buffers (fst (BeginFrame r)) = frame_buffers r"
  "gnm_wrapper (fst (BeginFrame r)) = gnm_wrapper r"
  "command_buffer (fst (BeginFrame r)) = command_buffer r"
  "display_width (fst (BeginFrame r)) = display_width r"
  "display_height (fst (BeginFrame r)) = display_height r"
  by (simp_all add: BeginFrame_def MAX_FRAME_BUFFERS_def Let_def)

lemma unat_ucast_32_64: "unat (ucast (c :: 32 word) :: 64 word) = unat c"
proof -
  have "unat c < 2 ^ 32" using unsigned_less [of c] by simp
  then have "unat c < 2 ^ 64" by simp
  then show ?thesis by (simp add: unsigned_ucast_eq take_bit_nat_eq_self)
qed

lemma unat_index: "unat ((ucast (c :: 32 word) :: 64 word) mod 3) = unat c mod 3"
  by (simp add: unat_mod unat_ucast_32_64)

lemma BeginFrames_current_frame:
  "current_frame (BeginFrames n r) = current_frame r + of_nat n"
  by (induction n) (simp_all add: BeginFrame_fields)

lemma BeginFrames_index:
  "unat (current_frame_buffer (BeginFrames (Suc n) r)) =
     unat (current_frame r + of_nat (Suc n)) mod 3"
  by (simp add: BeginFrame_fields unat_index BeginFrames_current_frame add_ac)

lemma cycle_step:
  fixes c :: "32 word"
  assumes "c \<noteq> 0xFFFFFFFF"
  shows "unat (c + 1) mod 3 = (unat c mod 3 + 1) mod 3"
proof -
  have m: "(- 1 :: 32 word) = 0xFFFFFFFF" by simp
  have "c \<noteq> - 1" unfolding m by (rule assms)
  then have "1 + c \<noteq> 0" using max_word_wrap [of c] by (auto simp: add.commute)
  then have "unat (1 + c) = Suc (unat c)" by (rule unatSuc)
  then show ?thesis by (simp add: mod_simps add.commute)
qed

lemma Present_presented:
  assumes "gnm_wrapper r = Some w" and "unat (current_frame_buffer r) < length (frame_buffers r)"
  shows "\<exists>l. PS5Renderer_Present ps5 r = Some (r, l) \<and>
           presented l = [(color_buffer_addr (frame_buffers r ! unat (current_frame_buffer r)),
                           display_width r, display_height r)]"
  using assms
  by (cases r; cases "command_buffer r")
     (auto simp: PS5Renderer_Present_def PS5Renderer_SubmitCommandBuffer_def
        GNMWrapper_SubmitCommandBuffer_def GNMWrapper_Present_def presented_def Let_def)

text \<open>
  C2.  The claim: frame management is triple-buffered; \<open>BeginFrame\<close> increments the
  frame counter and sets the index to the counter modulo 3, so the index is always 0, 1
  or 2, consecutive frames cycle through the three frame buffers, and \<open>Present\<close>
  presents the colour buffer of the frame buffer at the current index.

  The counter is a \<open>uint32_t\<close> and \<open>2 ^ 32\<close> is not a multiple of 3: frame
  \<open>2 ^ 32 - 1\<close> and the frame after it, where the counter is 0 again, both use frame
  buffer 0.  The counterexample is the renderer as constructed, after \<open>2 ^ 32 - 1\<close> and
  after \<open>2 ^ 32\<close> calls of \<open>BeginFrame\<close>.
\<close>

theorem BeginFrame_cycle_breaks_at_wrap:
  "current_frame_buffer (BeginFrames 4294967295 (PS5Renderer_new fb_zero fb_zero fb_zero)) = 0
   \<and> current_frame_buffer (BeginFrames 4294967296 (PS5Renderer_new fb_zero fb_zero fb_zero)) = 0"
proof -
  let ?r = "PS5Renderer_new fb_zero fb_zero fb_zero"
  have a: "4294967295 = Suc 4294967294" "4294967296 = Suc 4294967295" by simp_all
  have "unat (current_frame_buffer (BeginFrames (Suc 4294967294) ?r)) = 0"
    unfolding BeginFrames_index by (simp add: PS5Renderer_new_def)
  moreover have "unat (current_frame_buffer (BeginFrames (Suc 4294967295) ?r)) = 0"
    unfolding BeginFrames_index by (simp add: PS5Renderer_new_def)
  ultimately show ?thesis
    unfolding a by (simp add: unat_eq_0 del: BeginFrames.simps)
qed

text \<open>
  C2 as amended.  \<open>MAX_FRAME_BUFFERS\<close> is 3; \<open>BeginFrame\<close> increments the 32-bit
  frame counter and sets the index to the new counter modulo 3; after one or more calls
  of \<open>BeginFrame\<close>, from any renderer, the index is below 3; as long as the counter
  does not wrap (it is not \<open>2 ^ 32 - 1\<close> before the call) and the index is the one
  \<open>BeginFrame\<close> computes from the counter, the next frame uses the next frame buffer in
  the cycle 0, 1, 2, 0; and \<open>Present\<close>, with a GNM wrapper and an index inside the
  array (as it is after \<open>BeginFrame\<close>), hands to the display exactly the colour buffer
  of the frame buffer at the current index, with the display's dimensions, and changes
  nothing in the renderer.
\<close>

theorem BeginFrame_triple_buffering:
  "MAX_FRAME_BUFFERS = 3
   \<and> current_frame (fst (BeginFrame r)) = current_frame r + 1
   \<and> current_frame_buffer (fst (BeginFrame r)) = ucast (current_frame (fst (BeginFrame r))) mod 3
   \<and> unat (current_frame_buffer (BeginFrames (Suc n) r)) < 3
   \<and> (current_frame r \<noteq> 0xFFFFFFFF \<and> unat (current_frame_buffer r) = unat (current_frame r) mod 3
        \<longrightarrow> unat (current_frame_buffer (fst (BeginFrame r))) = (unat (current_frame_buffer r) + 1) mod 3)
   \<and> (gnm_wrapper r \<noteq> None \<and> unat (current_frame_buffer r) < length (frame_buffers r)
        \<longrightarrow> (\<exists>l. PS5Renderer_Present ps5 r = Some (r, l) \<and>
               presented l = [(color_buffer_addr (frame_buffers r ! unat (current_frame_buffer r)),
                               display_width r, display_height r)]))"
proof -
  have 1: "MAX_FRAME_BUFFERS = 3" by (simp add: MAX_FRAME_BUFFERS_def)
  have 2: "current_frame (fst (BeginFrame r)) = current_frame r + 1"
    by (simp add: BeginFrame_fields)
  have 3: "current_frame_buffer (fst (BeginFrame r)) = ucast (current_frame (fst (BeginFrame r))) mod 3"
    by (simp add: BeginFrame_fields)
  have 4: "unat (current_frame_buffer (BeginFrames (Suc n) r)) < 3"
    unfolding BeginFrames_index by simp
  have 5: "unat (current_frame_buffer (fst (BeginFrame r))) = (unat (current_frame_buffer r) + 1) mod 3"
    if "current_frame r \<noteq> 0xFFFFFFFF" and "unat (current_frame_buffer r) = unat (current_frame r) mod 3"
    using that cycle_step [of "current_frame r"] by (simp add: BeginFrame_fields unat_index)
  have 6: "\<exists>l. PS5Renderer_Present ps5 r = Some (r, l) \<and>
               presented l = [(color_buffer_addr (frame_buffers r ! unat (current_frame_buffer r)),
                               display_width r, display_height r)]"
    if "gnm_wrapper r \<noteq> None" and "unat (current_frame_buffer r) < length (frame_buffers r)"
    using that Present_presented [of r _ ps5] by auto
  from 1 2 3 4 5 6 show ?thesis by blast
qed

text \<open>
  The witness: the renderer as constructed, given a GNM wrapper, in the development
  build.  Its first frame uses frame buffer 1, and presenting right after construction
  hands frame buffer 0 to the display at 1920 by 1080.
\<close>

theorem BeginFrame_triple_buffering_witness:
  "unat (current_frame_buffer
       (fst (BeginFrame ((PS5Renderer_new fb_zero fb_zero fb_zero)\<lparr> gnm_wrapper := Some GNMWrapper_new \<rparr>)))) = 1
   \<and> (\<exists>l. PS5Renderer_Present False
              ((PS5Renderer_new fb_zero fb_zero fb_zero)\<lparr> gnm_wrapper := Some GNMWrapper_new \<rparr>)
            = Some ((PS5Renderer_new fb_zero fb_zero fb_zero)\<lparr> gnm_wrapper := Some GNMWrapper_new \<rparr>, l)
          \<and> presented l = [(0, 1920, 1080)])"
proof -
  let ?r = "(PS5Renderer_new fb_zero fb_zero fb_zero)\<lparr> gnm_wrapper := Some GNMWrapper_new \<rparr>"
  have h1: "current_frame ?r \<noteq> 0xFFFFFFFF \<and>
            unat (current_frame_buffer ?r) = unat (current_frame ?r) mod 3"
    by (simp add: PS5Renderer_new_def)
  have h2: "gnm_wrapper ?r \<noteq> None \<and> unat (current_frame_buffer ?r) < length (frame_buffers ?r)"
    by (simp add: PS5Renderer_new_def)
  from BeginFrame_triple_buffering [of ?r 0 False] h1 h2
  have a: "unat (current_frame_buffer (fst (BeginFrame ?r))) = (unat (current_frame_buffer ?r) + 1) mod 3"
    and b: "\<exists>l. PS5Renderer_Present False ?r = Some (?r, l) \<and>
               presented l = [(color_buffer_addr (frame_buffers ?r ! unat (current_frame_buffer ?r)),
                               display_width ?r, display_height ?r)]"
    by blast+
  have c: "(unat (current_frame_buffer ?r) + 1) mod 3 = 1"
    by (simp add: PS5Renderer_new_def)
  have d: "(color_buffer_addr (frame_buffers ?r ! unat (current_frame_buffer ?r)),
            display_width ?r, display_height ?r) = (0, 1920, 1080)"
    by (simp add: PS5Renderer_new_def fb_zero_def)
  from a b c d show ?thesis by simp
qed

subsection \<open>Development mode\<close>

text \<open>
  C7.  In the development build (\<open>PS5_BUILD\<close> not defined) \<open>InitializeDevice\<close> sets
  the device and context handles to the placeholder 1 and returns true,
  \<open>CreateCommandQueue\<close> sets the command-queue handle to 1 and returns true, both
  whatever the wrapper held before; so \<open>GNMWrapper::Initialize\<close> returns true from
  every state, and from a wrapper that is not yet initialised it leaves the three
  handles at 1 and the wrapper initialised.  \<open>Present\<close> returns true for every colour
  buffer address and all dimensions.
\<close>

theorem development_mode_placeholders:
  "InitializeDevice False w =
     (True, w\<lparr> impl := (impl w)\<lparr> device_handle := 1, context_handle := 1 \<rparr> \<rparr>,
      [Log ''[GNMWrapper] GNM device initialization (development mode)''])
   \<and> CreateCommandQueue False w =
     (True, w\<lparr> impl := (impl w)\<lparr> command_queue_handle := 1 \<rparr> \<rparr>,
      [Log ''[GNMWrapper] Command queue created (development mode)''])
   \<and> fst (GNMWrapper_Initialize False w) = True
   \<and> fst (snd (GNMWrapper_Initialize False (w\<lparr> gnm_initialized := False \<rparr>))) =
       w\<lparr> impl := (impl w)\<lparr> device_handle := 1, context_handle := 1,
                              command_queue_handle := 1 \<rparr>,
          gnm_initialized := True \<rparr>
   \<and> fst (GNMWrapper_Present False addr wd ht) = True"
  by (simp add: InitializeDevice_def CreateCommandQueue_def GNMWrapper_Initialize_def
      GNMWrapper_Present_def Let_def)

subsection \<open>Command-buffer submission\<close>

text \<open>
  C8.  \<open>PS5Renderer::SubmitCommandBuffer\<close> returns the renderer it was given, field by
  field: the frame counter, the frame-buffer index, the frame buffers and the GNM
  wrapper with its allocator offset are unchanged.  With a GNM wrapper it does exactly
  what \<open>GNMWrapper::SubmitCommandBuffer\<close> does with the same command buffer; without
  one it does nothing.  \<open>GNMWrapper::SubmitCommandBuffer\<close> never changes the wrapper,
  and with a null command buffer it returns at once, with no effect at all.
\<close>

theorem SubmitCommandBuffer_pass_through:
  "fst (PS5Renderer_SubmitCommandBuffer ps5 cmd r) = r
   \<and> (gnm_wrapper r = Some w \<longrightarrow>
        snd (PS5Renderer_SubmitCommandBuffer ps5 cmd r) =
        snd (GNMWrapper_SubmitCommandBuffer ps5 cmd w))
   \<and> (gnm_wrapper r = None \<longrightarrow> snd (PS5Renderer_SubmitCommandBuffer ps5 cmd r) = [])
   \<and> fst (GNMWrapper_SubmitCommandBuffer ps5 cmd w) = w
   \<and> GNMWrapper_SubmitCommandBuffer ps5 None w = (w, [])"
  by (cases r; cases cmd; cases "gnm_wrapper r")
     (auto simp: PS5Renderer_SubmitCommandBuffer_def GNMWrapper_SubmitCommandBuffer_def)

text \<open>
  The witness: a renderer with a fresh GNM wrapper submits a command buffer in the
  development build; the wrapper logs the submission and the renderer is unchanged.
\<close>

theorem SubmitCommandBuffer_pass_through_witness:
  "PS5Renderer_SubmitCommandBuffer False (Some PS5CommandBuffer)
     ((PS5Renderer_new fb_zero fb_zero fb_zero)\<lparr> gnm_wrapper := Some GNMWrapper_new \<rparr>)
   = ((PS5Renderer_new fb_zero fb_zero fb_zero)\<lparr> gnm_wrapper := Some GNMWrapper_new \<rparr>,
      [Log ''[GNMWrapper] Command buffer submitted (development mode)''])"
proof -
  let ?r = "(PS5Renderer_new fb_zero fb_zero fb_zero)\<lparr> gnm_wrapper := Some GNMWrapper_new \<rparr>"
  have h: "gnm_wrapper ?r = Some GNMWrapper_new" by simp
  from SubmitCommandBuffer_pass_through [of False "Some PS5CommandBuffer" ?r GNMWrapper_new] h
  have a: "fst (PS5Renderer_SubmitCommandBuffer False (Some PS5CommandBuffer) ?r) = ?r"
    and b: "snd (PS5Renderer_SubmitCommandBuffer False (Some PS5CommandBuffer) ?r) =
            snd (GNMWrapper_SubmitCommandBuffer False (Some PS5CommandBuffer) GNMWrapper_new)"
    by blast+
  have c: "snd (GNMWrapper_SubmitCommandBuffer False (Some PS5CommandBuffer) GNMWrapper_new) =
           [Log ''[GNMWrapper] Command buffer submitted (development mode)'']"
    by (simp add: GNMWrapper_SubmitCommandBuffer_def)
  from a b c show ?thesis by (metis prod.collapse)
qed

subsection \<open>The IPC command exchange\<close>

text \<open>
  C3.  The claim: \<open>SendIPCCommand\<close> sends the command text prefixed by its length, then
  receives exactly one response before returning; it returns true with the response on
  success and false if the socket is invalid, the send fails or the receive fails.

  The code puts no length on the wire: the buffer given to \<open>send\<close> is the command
  itself, and its length is only the byte count argument of the call.  For the command
  \<open>GET_VERSION\<close> on an open socket the bytes sent are the eleven characters of the
  command, which is not a length-prefixed message.
\<close>

theorem SendIPCCommand_sends_no_length_prefix:
  "sent_bytes (trace_of (SendIPCCommand
       \<lparr> send_ret = SendReturns 11, recv_ret = RecvReturns 5, recv_data = ''1.2.3'' \<rparr>
       ''GET_VERSION'' [] (EtaHENPlugin_new\<lparr> ipc_socket := 3 \<rparr>))) = [''GET_VERSION'']
   \<and> \<not> length_prefixed ''GET_VERSION'' ''GET_VERSION''"
  by (simp add: SendIPCCommand_def sent_bytes_def length_prefixed_def EtaHENPlugin_new_def)

text \<open>
  C3 as amended.  \<open>SendIPCCommand\<close> is a half-duplex exchange of plain text.  With the
  socket at \<open>- 1\<close> it returns false and touches nothing.  Otherwise it sends the
  command text as it is, with no length prefix, in one \<open>send\<close>; if that fails it
  returns false without receiving.  Otherwise it receives once, up to 1023 bytes; if
  that fails it returns false.  Otherwise it returns true, and the response is the
  received bytes up to the first NUL.  On every failing path the caller's response
  string is left as it was.  No call sends more than once, and no call receives before
  it has sent.  The two ways in which the call does not return are part of the
  statement: a \<open>send\<close> that raises \<open>SIGPIPE\<close> ends the process after that one
  \<open>send\<close>, and a \<open>recv\<close> that never returns leaves the call blocked after one
  \<open>send\<close> and one \<open>recv\<close>.
\<close>

theorem SendIPCCommand_protocol:
  "(ipc_socket p = - 1 \<longrightarrow>
        SendIPCCommand net command response p = Returned (False, response) [])
   \<and> (ipc_socket p \<noteq> - 1 \<and> send_ret net = SendReturns sent \<and> sent < 0 \<longrightarrow>
        SendIPCCommand net command response p =
          Returned (False, response)
            [SockSend (ipc_socket p) command,
             Log ''[EtaHENPlugin] Failed to send IPC command''])
   \<and> (ipc_socket p \<noteq> - 1 \<and> send_ret net = SendReturns sent \<and> 0 \<le> sent \<and>
        recv_ret net = RecvReturns got \<and> got < 0 \<longrightarrow>
        SendIPCCommand net command response p =
          Returned (False, response)
            [SockSend (ipc_socket p) command, SockRecv (ipc_socket p) 1023,
             Log ''[EtaHENPlugin] Failed to receive IPC response''])
   \<and> (ipc_socket p \<noteq> - 1 \<and> send_ret net = SendReturns sent \<and> 0 \<le> sent \<and>
        recv_ret net = RecvReturns got \<and> 0 \<le> got \<longrightarrow>
        SendIPCCommand net command response p =
          Returned
            (True, takeWhile (\<lambda>c. c \<noteq> CHR 0x00) (take (nat got) (recv_data net)))
            [SockSend (ipc_socket p) command, SockRecv (ipc_socket p) 1023])
   \<and> (ipc_socket p \<noteq> - 1 \<and> send_ret net = SendSigpipe \<longrightarrow>
        SendIPCCommand net command response p = Killed [SockSend (ipc_socket p) command])
   \<and> (ipc_socket p \<noteq> - 1 \<and> send_ret net = SendReturns sent \<and> 0 \<le> sent \<and>
        recv_ret net = RecvBlocks \<longrightarrow>
        SendIPCCommand net command response p =
          Blocked [SockSend (ipc_socket p) command, SockRecv (ipc_socket p) 1023])
   \<and> (\<forall>b \<in> set (sent_bytes (trace_of (SendIPCCommand net command response p))).
         b = command \<and> \<not> length_prefixed b command)"
proof -
  have last: "\<forall>b \<in> set (sent_bytes (trace_of (SendIPCCommand net command response p))).
         b = command \<and> \<not> length_prefixed b command"
    by (cases "send_ret net"; cases "recv_ret net")
       (simp_all add: SendIPCCommand_def sent_bytes_def length_prefixed_def)
  show ?thesis
    apply (intro conjI impI)
    subgoal by (simp add: SendIPCCommand_def)
    subgoal by (simp add: SendIPCCommand_def)
    subgoal by (simp add: SendIPCCommand_def)
    subgoal by (simp add: SendIPCCommand_def)
    subgoal by (simp add: SendIPCCommand_def)
    subgoal by (simp add: SendIPCCommand_def)
    subgoal by (rule last)
    done
qed

text \<open>
  The witness takes the six paths in turn: a plugin that never connected, and a
  plugin on socket 3 whose send fails, whose receive fails, whose exchange succeeds
  with a response that holds a NUL, whose send raises \<open>SIGPIPE\<close>, and whose
  receive never returns.
\<close>

theorem SendIPCCommand_protocol_witness:
  "SendIPCCommand \<lparr> send_ret = SendReturns 11, recv_ret = RecvReturns 5, recv_data = ''1.2.3'' \<rparr>
       ''GET_VERSION'' ''old'' EtaHENPlugin_new = Returned (False, ''old'') []
   \<and> SendIPCCommand \<lparr> send_ret = SendReturns (- 1), recv_ret = RecvReturns 5, recv_data = ''1.2.3'' \<rparr>
       ''GET_VERSION'' ''old'' (EtaHENPlugin_new\<lparr> ipc_socket := 3 \<rparr>) =
       Returned (False, ''old'')
        [SockSend 3 ''GET_VERSION'', Log ''[EtaHENPlugin] Failed to send IPC command'']
   \<and> SendIPCCommand \<lparr> send_ret = SendReturns 11, recv_ret = RecvReturns (- 1), recv_data = [] \<rparr>
       ''GET_VERSION'' ''old'' (EtaHENPlugin_new\<lparr> ipc_socket := 3 \<rparr>) =
       Returned (False, ''old'')
        [SockSend 3 ''GET_VERSION'', SockRecv 3 1023,
         Log ''[EtaHENPlugin] Failed to receive IPC response'']
   \<and> SendIPCCommand \<lparr> send_ret = SendReturns 11, recv_ret = RecvReturns 5,
                        recv_data = [CHR ''1'', CHR ''.'', CHR ''2'', CHR 0x00, CHR ''3''] \<rparr>
       ''GET_VERSION'' ''old'' (EtaHENPlugin_new\<lparr> ipc_socket := 3 \<rparr>) =
       Returned (True, ''1.2'') [SockSend 3 ''GET_VERSION'', SockRecv 3 1023]
   \<and> SendIPCCommand \<lparr> send_ret = SendSigpipe, recv_ret = RecvReturns 5, recv_data = ''1.2.3'' \<rparr>
       ''GET_VERSION'' ''old'' (EtaHENPlugin_new\<lparr> ipc_socket := 3 \<rparr>) =
       Killed [SockSend 3 ''GET_VERSION'']
   \<and> SendIPCCommand \<lparr> send_ret = SendReturns 11, recv_ret = RecvBlocks, recv_data = [] \<rparr>
       ''GET_VERSION'' ''old'' (EtaHENPlugin_new\<lparr> ipc_socket := 3 \<rparr>) =
       Blocked [SockSend 3 ''GET_VERSION'', SockRecv 3 1023]"
proof -
  let ?p = "EtaHENPlugin_new\<lparr> ipc_socket := 3 \<rparr>"
  have s0: "ipc_socket EtaHENPlugin_new = - 1" by (simp add: EtaHENPlugin_new_def)
  have s3: "ipc_socket ?p = 3" by simp
  have a: "SendIPCCommand \<lparr> send_ret = SendReturns 11, recv_ret = RecvReturns 5, recv_data = ''1.2.3'' \<rparr>
       ''GET_VERSION'' ''old'' EtaHENPlugin_new = Returned (False, ''old'') []"
    using SendIPCCommand_protocol
      [of EtaHENPlugin_new
          "\<lparr> send_ret = SendReturns 11, recv_ret = RecvReturns 5, recv_data = ''1.2.3'' \<rparr>"
          "''GET_VERSION''" "''old''"] s0
    by blast
  have b: "SendIPCCommand \<lparr> send_ret = SendReturns (- 1), recv_ret = RecvReturns 5, recv_data = ''1.2.3'' \<rparr>
       ''GET_VERSION'' ''old'' ?p =
       Returned (False, ''old'')
        [SockSend (ipc_socket ?p) ''GET_VERSION'', Log ''[EtaHENPlugin] Failed to send IPC command'']"
    using SendIPCCommand_protocol
      [of ?p "\<lparr> send_ret = SendReturns (- 1), recv_ret = RecvReturns 5, recv_data = ''1.2.3'' \<rparr>"
          "''GET_VERSION''" "''old''" "- 1"] s3
    by simp
  have c: "SendIPCCommand \<lparr> send_ret = SendReturns 11, recv_ret = RecvReturns (- 1), recv_data = [] \<rparr>
       ''GET_VERSION'' ''old'' ?p =
       Returned (False, ''old'')
        [SockSend (ipc_socket ?p) ''GET_VERSION'', SockRecv (ipc_socket ?p) 1023,
         Log ''[EtaHENPlugin] Failed to receive IPC response'']"
    using SendIPCCommand_protocol
      [of ?p "\<lparr> send_ret = SendReturns 11, recv_ret = RecvReturns (- 1), recv_data = [] \<rparr>"
          "''GET_VERSION''" "''old''" 11 "- 1"] s3
    by simp
  have d: "SendIPCCommand \<lparr> send_ret = SendReturns 11, recv_ret = RecvReturns 5,
                        recv_data = [CHR ''1'', CHR ''.'', CHR ''2'', CHR 0x00, CHR ''3''] \<rparr>
       ''GET_VERSION'' ''old'' ?p =
       Returned (True, ''1.2'')
         [SockSend (ipc_socket ?p) ''GET_VERSION'', SockRecv (ipc_socket ?p) 1023]"
    using SendIPCCommand_protocol
      [of ?p "\<lparr> send_ret = SendReturns 11, recv_ret = RecvReturns 5,
                 recv_data = [CHR ''1'', CHR ''.'', CHR ''2'', CHR 0x00, CHR ''3''] \<rparr>"
          "''GET_VERSION''" "''old''" 11 5] s3
    by simp
  have e: "SendIPCCommand \<lparr> send_ret = SendSigpipe, recv_ret = RecvReturns 5, recv_data = ''1.2.3'' \<rparr>
       ''GET_VERSION'' ''old'' ?p = Killed [SockSend (ipc_socket ?p) ''GET_VERSION'']"
    using SendIPCCommand_protocol
      [of ?p "\<lparr> send_ret = SendSigpipe, recv_ret = RecvReturns 5, recv_data = ''1.2.3'' \<rparr>"
          "''GET_VERSION''" "''old''"] s3
    by simp
  have f: "SendIPCCommand \<lparr> send_ret = SendReturns 11, recv_ret = RecvBlocks, recv_data = [] \<rparr>
       ''GET_VERSION'' ''old'' ?p =
       Blocked [SockSend (ipc_socket ?p) ''GET_VERSION'', SockRecv (ipc_socket ?p) 1023]"
    using SendIPCCommand_protocol
      [of ?p "\<lparr> send_ret = SendReturns 11, recv_ret = RecvBlocks, recv_data = [] \<rparr>"
          "''GET_VERSION''" "''old''" 11] s3
    by simp
  from a b c d e f show ?thesis unfolding s3 by blast
qed

subsection \<open>The emulation state machine\<close>

lemma flags_ShutdownSubsystems:
  "game_loaded (fst (ShutdownSubsystems ps5 s)) = game_loaded s"
  "emulation_running (fst (ShutdownSubsystems ps5 s)) = emulation_running s"
  "emulation_paused (fst (ShutdownSubsystems ps5 s)) = emulation_paused s"
  by (auto simp: ShutdownSubsystems_def Let_def split: option.splits prod.splits)

lemma inv_LoadGame:
  "emulation_invariant s \<Longrightarrow> emulation_invariant (fst (snd (LoadGame ok path s)))"
  by (auto simp: emulation_invariant_def LoadGame_def split: option.splits)

lemma inv_StopEmulation:
  "emulation_invariant s \<Longrightarrow> emulation_invariant (fst (StopEmulation s))"
  by (auto simp: emulation_invariant_def StopEmulation_def)

lemma inv_UnloadGame:
  "emulation_invariant s \<Longrightarrow> emulation_invariant (fst (UnloadGame s))"
  by (auto simp: emulation_invariant_def UnloadGame_def StopEmulation_def Let_def
      split: prod.splits)

lemma inv_StartEmulation:
  "emulation_invariant s \<Longrightarrow> emulation_invariant (fst (StartEmulation ok s))"
  by (auto simp: emulation_invariant_def StartEmulation_def split: option.splits)

lemma inv_PauseEmulation:
  "emulation_invariant s \<Longrightarrow> emulation_invariant (fst (PauseEmulation s))"
  by (auto simp: emulation_invariant_def PauseEmulation_def)

lemma inv_ResumeEmulation:
  "emulation_invariant s \<Longrightarrow> emulation_invariant (fst (ResumeEmulation s))"
  by (auto simp: emulation_invariant_def ResumeEmulation_def)

lemma inv_Shutdown:
  assumes inv: "emulation_invariant s"
  shows "emulation_invariant (fst (PS5Application_Shutdown ps5 s))"
proof (cases "app_initialized s")
  case False
  then show ?thesis using inv by (simp add: PS5Application_Shutdown_def)
next
  case True
  define s1 where "s1 = (if emulation_running s then fst (StopEmulation s) else s)"
  define s2 where "s2 = (if game_loaded s1 then fst (UnloadGame s1) else s1)"
  have i1: "emulation_invariant s1" using inv by (simp add: s1_def inv_StopEmulation)
  have i2: "emulation_invariant s2" using i1 by (simp add: s2_def inv_UnloadGame)
  have "fst (PS5Application_Shutdown ps5 s) =
          (fst (ShutdownSubsystems ps5 s2))\<lparr> app_initialized := False \<rparr>"
    using True
    by (simp add: PS5Application_Shutdown_def s1_def s2_def Let_def split: prod.splits)
  then show ?thesis using i2 by (simp add: emulation_invariant_def flags_ShutdownSubsystems)
qed

lemma inv_run_op: "emulation_invariant s \<Longrightarrow> emulation_invariant (run_op op s)"
  by (cases op)
     (simp_all add: inv_LoadGame inv_UnloadGame inv_StartEmulation inv_PauseEmulation
        inv_ResumeEmulation inv_StopEmulation inv_Shutdown)

lemma inv_run_ops: "emulation_invariant s \<Longrightarrow> emulation_invariant (run_ops ops s)"
  by (induction ops arbitrary: s) (simp_all add: inv_run_op)

text \<open>
  C9.  The application as constructed satisfies the invariant: paused implies running,
  and running implies a loaded game.  Each of \<open>LoadGame\<close>, \<open>UnloadGame\<close>,
  \<open>StartEmulation\<close>, \<open>PauseEmulation\<close>, \<open>ResumeEmulation\<close>, \<open>StopEmulation\<close> and
  \<open>Shutdown\<close> preserves it from any state in which it holds, whatever the emulator
  core answers; so does every sequence of them.
\<close>

theorem emulation_invariant_preserved:
  "emulation_invariant PS5Application_new
   \<and> (emulation_invariant s \<longrightarrow> emulation_invariant (run_op op s))
   \<and> (emulation_invariant s \<longrightarrow> emulation_invariant (run_ops ops s))"
proof -
  have "emulation_invariant PS5Application_new"
    by (simp add: emulation_invariant_def PS5Application_new_def)
  then show ?thesis using inv_run_op [of s op] inv_run_ops [of s ops] by blast
qed

text \<open>
  The witness: with an emulator core in place, loading a game, starting and pausing
  leads to a state that is loaded, running and paused, and the invariant holds there.
\<close>

theorem emulation_invariant_preserved_witness:
  "emulation_invariant
     (run_ops [OpLoadGame True ''game.nsp'', OpStartEmulation True, OpPauseEmulation]
        (PS5Application_new\<lparr> eden_core := Some EdenCoreIntegration \<rparr>))
   \<and> emulation_paused
     (run_ops [OpLoadGame True ''game.nsp'', OpStartEmulation True, OpPauseEmulation]
        (PS5Application_new\<lparr> eden_core := Some EdenCoreIntegration \<rparr>))
   \<and> emulation_running
     (run_ops [OpLoadGame True ''game.nsp'', OpStartEmulation True, OpPauseEmulation]
        (PS5Application_new\<lparr> eden_core := Some EdenCoreIntegration \<rparr>))
   \<and> game_loaded
     (run_ops [OpLoadGame True ''game.nsp'', OpStartEmulation True, OpPauseEmulation]
        (PS5Application_new\<lparr> eden_core := Some EdenCoreIntegration \<rparr>))"
proof -
  let ?s = "PS5Application_new\<lparr> eden_core := Some EdenCoreIntegration \<rparr>"
  let ?ops = "[OpLoadGame True ''game.nsp'', OpStartEmulation True, OpPauseEmulation]"
  have h: "emulation_invariant ?s"
    by (simp add: emulation_invariant_def PS5Application_new_def)
  from emulation_invariant_preserved [of ?s _ ?ops] h
  have a: "emulation_invariant (run_ops ?ops ?s)" by blast
  have b: "emulation_paused (run_ops ?ops ?s) \<and> emulation_running (run_ops ?ops ?s)
           \<and> game_loaded (run_ops ?ops ?s)"
    by (simp add: PS5Application_new_def LoadGame_def StartEmulation_def PauseEmulation_def)
  from a b show ?thesis by blast
qed

subsection \<open>Initialize and Shutdown\<close>

lemma GNM_Init_guard: "gnm_initialized w \<Longrightarrow> GNMWrapper_Initialize ps5 w = (True, w, [])"
  by (simp add: GNMWrapper_Initialize_def)

lemma GNM_Shutdown_guard: "\<not> gnm_initialized w \<Longrightarrow> GNMWrapper_Shutdown ps5 w = (w, [])"
  by (simp add: GNMWrapper_Shutdown_def)

lemma GNM_Init_result:
  "fst (GNMWrapper_Initialize ps5 w) \<and> gnm_initialized (fst (snd (GNMWrapper_Initialize ps5 w)))"
  by (simp add: GNMWrapper_Initialize_def InitializeDevice_def CreateCommandQueue_def Let_def)

lemma GNM_Shutdown_result: "\<not> gnm_initialized (fst (GNMWrapper_Shutdown ps5 w))"
  by (simp add: GNMWrapper_Shutdown_def Let_def)

lemma Audio_Init_guard: "audio_initialized a \<Longrightarrow> PS5AudioManager_Initialize ps5 a = (True, a, [])"
  by (simp add: PS5AudioManager_Initialize_def)

lemma Audio_Shutdown_guard: "\<not> audio_initialized a \<Longrightarrow> PS5AudioManager_Shutdown a = (a, [])"
  by (simp add: PS5AudioManager_Shutdown_def)

lemma Audio_Init_result:
  "fst (PS5AudioManager_Initialize ps5 a) \<and> audio_initialized (fst (snd (PS5AudioManager_Initialize ps5 a)))"
  by (simp add: PS5AudioManager_Initialize_def InitializePS5AudioSystem_def EnumerateAudioDevices_def Let_def)

lemma Audio_Shutdown_result: "\<not> audio_initialized (fst (PS5AudioManager_Shutdown a))"
  by (simp add: PS5AudioManager_Shutdown_def Let_def)

lemma App_Init_guard: "app_initialized s \<Longrightarrow> PS5Application_Initialize env argv s = (True, s, [])"
  by (simp add: PS5Application_Initialize_def)

lemma App_Shutdown_guard: "\<not> app_initialized s \<Longrightarrow> PS5Application_Shutdown ps5 s = (s, [])"
  by (simp add: PS5Application_Shutdown_def)

lemma App_Shutdown_result: "\<not> app_initialized (fst (PS5Application_Shutdown ps5 s))"
  by (simp add: PS5Application_Shutdown_def Let_def split: prod.splits)

lemma override_simps:
  "override None None s = s"
  "override g c (s\<lparr> game_path := x \<rparr>) = override (Some (case g of None \<Rightarrow> x | Some y \<Rightarrow> y)) c s"
  "override g c (s\<lparr> config_path := x \<rparr>) = override g (Some (case c of None \<Rightarrow> x | Some y \<Rightarrow> y)) s"
  "override g c (override g c s) = override g c s"
  by (cases g; cases c; simp add: override_def)+

lemma PCL_char:
  "\<exists>ok g c l. \<forall>s. ProcessCommandLine_loop args s = (ok, override g c s, l)"
proof (induction args rule: induct_list012)
  case 1
  have "\<forall>s. ProcessCommandLine_loop [] s = (True, override None None s, [])"
    by (simp add: override_simps)
  then show ?case by blast
next
  case (2 arg)
  have "\<forall>s. ProcessCommandLine_loop [arg] s =
          (\<not> (arg = ''--help'' \<or> arg = ''-h''), override None None s,
           if arg = ''--help'' \<or> arg = ''-h'' then help_text else [])"
    by (simp add: override_simps)
  then show ?case by blast
next
  case (3 arg nxt rest)
  from 3(1) obtain ok g c l
    where r: "\<And>s. ProcessCommandLine_loop rest s = (ok, override g c s, l)" by blast
  from 3(2) obtain ok' g' c' l'
    where r': "\<And>s. ProcessCommandLine_loop (nxt # rest) s = (ok', override g' c' s, l')" by blast
  consider (c_game) "arg = ''--game''"
    | (c_config) "arg \<noteq> ''--game''" "arg = ''--config''"
    | (c_help) "arg \<noteq> ''--game''" "arg \<noteq> ''--config''" "arg = ''--help'' \<or> arg = ''-h''"
    | (c_other) "arg \<noteq> ''--game''" "arg \<noteq> ''--config''" "\<not> (arg = ''--help'' \<or> arg = ''-h'')"
    by blast
  then show ?case
  proof cases
    case c_game
    have "\<forall>s. ProcessCommandLine_loop (arg # nxt # rest) s =
            (ok, override (Some (case g of None \<Rightarrow> nxt | Some y \<Rightarrow> y)) c s,
             Log ''[PS5Application] Game path specified: '' # l)"
      using c_game by (simp add: r override_simps)
    then show ?thesis by blast
  next
    case c_config
    have "\<forall>s. ProcessCommandLine_loop (arg # nxt # rest) s =
            (ok, override g (Some (case c of None \<Rightarrow> nxt | Some y \<Rightarrow> y)) s,
             Log ''[PS5Application] Config path specified: '' # l)"
      using c_config by (simp add: r override_simps)
    then show ?thesis by blast
  next
    case c_help
    have "\<forall>s. ProcessCommandLine_loop (arg # nxt # rest) s =
            (False, override None None s, help_text)"
      using c_help by (auto simp: override_simps)
    then show ?thesis by blast
  next
    case c_other
    have "\<forall>s. ProcessCommandLine_loop (arg # nxt # rest) s = (ok', override g' c' s, l')"
      using c_other by (simp add: r')
    then show ?thesis by blast
  qed
qed

lemma PCL_idem:
  "ProcessCommandLine argv (fst (snd (ProcessCommandLine argv s))) = ProcessCommandLine argv s"
proof -
  obtain ok g c l
    where r: "\<And>s. ProcessCommandLine_loop (drop 1 argv) s = (ok, override g c s, l)"
    using PCL_char [of "drop 1 argv"] by blast
  show ?thesis
    unfolding ProcessCommandLine_def by (simp add: r override_simps del: One_nat_def)
qed

lemma PCL_frame:
  "app_initialized (fst (snd (ProcessCommandLine argv s))) = app_initialized s"
  "renderer (fst (snd (ProcessCommandLine argv s))) = renderer s"
proof -
  obtain ok g c l
    where r: "\<And>s. ProcessCommandLine_loop (drop 1 argv) s = (ok, override g c s, l)"
    using PCL_char [of "drop 1 argv"] by blast
  show "app_initialized (fst (snd (ProcessCommandLine argv s))) = app_initialized s"
    "renderer (fst (snd (ProcessCommandLine argv s))) = renderer s"
    unfolding ProcessCommandLine_def by (simp_all add: r override_def del: One_nat_def)
qed

lemma ISS_idem:
  "fst (InitializeSubsystems env (fst (snd (InitializeSubsystems env s)))) = fst (InitializeSubsystems env s)
   \<and> fst (snd (InitializeSubsystems env (fst (snd (InitializeSubsystems env s))))) = fst (snd (InitializeSubsystems env s))"
proof -
  obtain ok1 r l1 where R: "PS5Renderer_Initialize (ps5_build env) (cmd_init_ok env)
                           (tex_init_ok env) (shader_init_ok env)
                           (PS5Renderer_new (junk0 env) (junk1 env) (junk2 env)) = (ok1, r, l1)"
    by (metis prod_cases3)
  obtain ok2 a l2 where A: "PS5AudioManager_Initialize (ps5_build env) PS5AudioManager_new = (ok2, a, l2)"
    by (metis prod_cases3)
  show ?thesis
    by (cases ok1; cases ok2; cases "input_init_ok env"; cases "frontend_init_ok env";
        cases "core_init_ok env")
       (simp_all add: InitializeSubsystems_def R A Let_def)
qed


lemma ISS_frame:
  "app_initialized (fst (snd (InitializeSubsystems env s))) = app_initialized s"
  "game_path (fst (snd (InitializeSubsystems env s))) = game_path s"
  "config_path (fst (snd (InitializeSubsystems env s))) = config_path s"
proof -
  obtain ok1 r l1 where R: "PS5Renderer_Initialize (ps5_build env) (cmd_init_ok env)
                           (tex_init_ok env) (shader_init_ok env)
                           (PS5Renderer_new (junk0 env) (junk1 env) (junk2 env)) = (ok1, r, l1)"
    by (metis prod_cases3)
  obtain ok2 a l2 where A: "PS5AudioManager_Initialize (ps5_build env) PS5AudioManager_new = (ok2, a, l2)"
    by (metis prod_cases3)
  show "app_initialized (fst (snd (InitializeSubsystems env s))) = app_initialized s"
    "game_path (fst (snd (InitializeSubsystems env s))) = game_path s"
    "config_path (fst (snd (InitializeSubsystems env s))) = config_path s"
    by (cases ok1; cases ok2; cases "input_init_ok env"; cases "frontend_init_ok env";
        cases "core_init_ok env";
        simp add: InitializeSubsystems_def R A Let_def)+
qed

lemma PCL_fixed:
  assumes "ProcessCommandLine argv s = (ok, s1, l)"
    and "game_path t = game_path s1" and "config_path t = config_path s1"
  shows "ProcessCommandLine argv t = (ok, t, l)"
proof -
  obtain ok' g c l'
    where r: "\<And>s. ProcessCommandLine_loop (drop 1 argv) s = (ok', override g c s, l')"
    using PCL_char [of "drop 1 argv"] by blast
  from assms(1) have e: "ok = ok'" "s1 = override g c s" "l = l'"
    unfolding ProcessCommandLine_def by (simp_all add: r del: One_nat_def)
  have "override g c t = t"
    using assms(2,3) e(2) by (cases g; cases c) (simp_all add: override_def)
  then show ?thesis unfolding ProcessCommandLine_def by (simp add: r e del: One_nat_def)
qed

lemma App_Init_idem:
  "fst (PS5Application_Initialize env argv (fst (snd (PS5Application_Initialize env argv s))))
     = fst (PS5Application_Initialize env argv s)
   \<and> fst (snd (PS5Application_Initialize env argv (fst (snd (PS5Application_Initialize env argv s)))))
     = fst (snd (PS5Application_Initialize env argv s))"
proof (cases "app_initialized s")
  case True
  then show ?thesis by (simp add: App_Init_guard)
next
  case False
  obtain ok1 s1 l1 where P: "ProcessCommandLine argv s = (ok1, s1, l1)" by (metis prod_cases3)
  have s1i: "\<not> app_initialized s1" using PCL_frame(1) [of argv s] P False by simp
  show ?thesis
  proof (cases ok1)
    case f1: False
    have r: "PS5Application_Initialize env argv s =
               (False, s1, [Log ''[PS5Application] Initializing application...''] @ l1 @
                           [Log ''[PS5Application] Failed to process command line''])"
      using False P f1 by (simp add: PS5Application_Initialize_def)
    have P1: "ProcessCommandLine argv s1 = (ok1, s1, l1)"
      using PCL_fixed [OF P, of s1] by simp
    have "PS5Application_Initialize env argv s1 =
               (False, s1, [Log ''[PS5Application] Initializing application...''] @ l1 @
                           [Log ''[PS5Application] Failed to process command line''])"
      using s1i P1 f1 by (simp add: PS5Application_Initialize_def)
    then show ?thesis using r by simp
  next
    case t1: True
    obtain ok2 s2 l2 where I: "InitializeSubsystems env s1 = (ok2, s2, l2)" by (metis prod_cases3)
    have s2f: "\<not> app_initialized s2" "game_path s2 = game_path s1" "config_path s2 = config_path s1"
      using ISS_frame [of env s1] I s1i by simp_all
    show ?thesis
    proof (cases ok2)
      case True
      have "PS5Application_Initialize env argv s =
              (True, s2\<lparr> app_initialized := True \<rparr>,
               [Log ''[PS5Application] Initializing application...''] @ l1 @ LoadSettings @ l2 @
               [Log ''[PS5Application] Application initialized successfully''])"
        using False P t1 I True by (simp add: PS5Application_Initialize_def)
      then show ?thesis by (simp add: App_Init_guard)
    next
      case f2: False
      have r: "fst (PS5Application_Initialize env argv s) = False"
           "fst (snd (PS5Application_Initialize env argv s)) = s2"
        using False P t1 I f2 by (simp_all add: PS5Application_Initialize_def)
      have P2: "ProcessCommandLine argv s2 = (ok1, s2, l1)"
        using PCL_fixed [OF P, of s2] s2f by simp
      have I2: "fst (InitializeSubsystems env s2) = ok2" "fst (snd (InitializeSubsystems env s2)) = s2"
        using ISS_idem [of env s1] I by simp_all
      obtain l2' where I2': "InitializeSubsystems env s2 = (ok2, s2, l2')"
        using I2 by (cases "InitializeSubsystems env s2") auto
      have "fst (PS5Application_Initialize env argv s2) = False"
           "fst (snd (PS5Application_Initialize env argv s2)) = s2"
        using s2f(1) P2 t1 I2' f2 by (simp_all add: PS5Application_Initialize_def)
      then show ?thesis using r by simp
    qed
  qed
qed


text \<open>
  C10.  For the GNM wrapper, the audio manager and the application: \<open>Initialize\<close> on
  an initialised object returns true at once, with no effect and the object unchanged;
  \<open>Shutdown\<close> on an object that is not initialised returns at once, with no effect
  and the object unchanged.  So a second \<open>Initialize\<close> right after a first returns
  what the first returned and leaves the object as the first left it, and a second
  \<open>Shutdown\<close> right after a first does nothing.  For the wrapper and the audio
  manager, whose \<open>Initialize\<close> cannot fail, the second \<open>Initialize\<close> is always
  the no-op; for the application the two calls are given the same command line and the
  same answers of the environment.
\<close>

theorem Initialize_Shutdown_idempotent:
  "(gnm_initialized w \<longrightarrow> GNMWrapper_Initialize ps5 w = (True, w, []))
   \<and> (\<not> gnm_initialized w \<longrightarrow> GNMWrapper_Shutdown ps5 w = (w, []))
   \<and> (audio_initialized a \<longrightarrow> PS5AudioManager_Initialize ps5 a = (True, a, []))
   \<and> (\<not> audio_initialized a \<longrightarrow> PS5AudioManager_Shutdown a = (a, []))
   \<and> (app_initialized s \<longrightarrow> PS5Application_Initialize env argv s = (True, s, []))
   \<and> (\<not> app_initialized s \<longrightarrow> PS5Application_Shutdown ps5 s = (s, []))
   \<and> GNMWrapper_Initialize ps5 (fst (snd (GNMWrapper_Initialize ps5 w))) =
       (fst (GNMWrapper_Initialize ps5 w), fst (snd (GNMWrapper_Initialize ps5 w)), [])
   \<and> GNMWrapper_Shutdown ps5 (fst (GNMWrapper_Shutdown ps5 w)) =
       (fst (GNMWrapper_Shutdown ps5 w), [])
   \<and> PS5AudioManager_Initialize ps5 (fst (snd (PS5AudioManager_Initialize ps5 a))) =
       (fst (PS5AudioManager_Initialize ps5 a), fst (snd (PS5AudioManager_Initialize ps5 a)), [])
   \<and> PS5AudioManager_Shutdown (fst (PS5AudioManager_Shutdown a)) =
       (fst (PS5AudioManager_Shutdown a), [])
   \<and> fst (PS5Application_Initialize env argv (fst (snd (PS5Application_Initialize env argv s))))
       = fst (PS5Application_Initialize env argv s)
   \<and> fst (snd (PS5Application_Initialize env argv
                   (fst (snd (PS5Application_Initialize env argv s)))))
       = fst (snd (PS5Application_Initialize env argv s))
   \<and> PS5Application_Shutdown ps5 (fst (PS5Application_Shutdown ps5 s)) =
       (fst (PS5Application_Shutdown ps5 s), [])"
proof -
  have g2: "GNMWrapper_Initialize ps5 (fst (snd (GNMWrapper_Initialize ps5 w))) =
       (fst (GNMWrapper_Initialize ps5 w), fst (snd (GNMWrapper_Initialize ps5 w)), [])"
    using GNM_Init_result [of ps5 w] by (simp add: GNM_Init_guard)
  have g3: "GNMWrapper_Shutdown ps5 (fst (GNMWrapper_Shutdown ps5 w)) =
       (fst (GNMWrapper_Shutdown ps5 w), [])"
    using GNM_Shutdown_result [of ps5 w] by (simp add: GNM_Shutdown_guard)
  have a2: "PS5AudioManager_Initialize ps5 (fst (snd (PS5AudioManager_Initialize ps5 a))) =
       (fst (PS5AudioManager_Initialize ps5 a), fst (snd (PS5AudioManager_Initialize ps5 a)), [])"
    using Audio_Init_result [of ps5 a] by (simp add: Audio_Init_guard)
  have a3: "PS5AudioManager_Shutdown (fst (PS5AudioManager_Shutdown a)) =
       (fst (PS5AudioManager_Shutdown a), [])"
    using Audio_Shutdown_result [of a] by (simp add: Audio_Shutdown_guard)
  have p3: "PS5Application_Shutdown ps5 (fst (PS5Application_Shutdown ps5 s)) =
       (fst (PS5Application_Shutdown ps5 s), [])"
    using App_Shutdown_result [of ps5 s] by (simp add: App_Shutdown_guard)
  show ?thesis
    using g2 g3 a2 a3 p3 App_Init_idem [of env argv s]
    by (simp add: GNM_Init_guard GNM_Shutdown_guard Audio_Init_guard Audio_Shutdown_guard
        App_Init_guard App_Shutdown_guard)
qed

text \<open>
  The witness: for each class an initialised object, on which \<open>Initialize\<close> is the
  no-op, and the object as constructed, on which \<open>Shutdown\<close> is the no-op.
\<close>

theorem Initialize_Shutdown_idempotent_witness:
  "GNMWrapper_Initialize False (GNMWrapper_new\<lparr> gnm_initialized := True \<rparr>) =
     (True, GNMWrapper_new\<lparr> gnm_initialized := True \<rparr>, [])
   \<and> GNMWrapper_Shutdown False GNMWrapper_new = (GNMWrapper_new, [])
   \<and> PS5AudioManager_Initialize False (PS5AudioManager_new\<lparr> audio_initialized := True \<rparr>) =
     (True, PS5AudioManager_new\<lparr> audio_initialized := True \<rparr>, [])
   \<and> PS5AudioManager_Shutdown PS5AudioManager_new = (PS5AudioManager_new, [])
   \<and> PS5Application_Initialize dev_env [''eden''] (PS5Application_new\<lparr> app_initialized := True \<rparr>) =
     (True, PS5Application_new\<lparr> app_initialized := True \<rparr>, [])
   \<and> PS5Application_Shutdown False PS5Application_new = (PS5Application_new, [])"
proof -
  have i: "gnm_initialized (GNMWrapper_new\<lparr> gnm_initialized := True \<rparr>)"
    "audio_initialized (PS5AudioManager_new\<lparr> audio_initialized := True \<rparr>)"
    "app_initialized (PS5Application_new\<lparr> app_initialized := True \<rparr>)"
    by simp_all
  have n: "\<not> gnm_initialized GNMWrapper_new" "\<not> audio_initialized PS5AudioManager_new"
    "\<not> app_initialized PS5Application_new"
    by (simp_all add: GNMWrapper_new_def PS5AudioManager_new_def PS5Application_new_def)
  from Initialize_Shutdown_idempotent
    [of "GNMWrapper_new\<lparr> gnm_initialized := True \<rparr>" False
        "PS5AudioManager_new\<lparr> audio_initialized := True \<rparr>"
        "PS5Application_new\<lparr> app_initialized := True \<rparr>" dev_env "[''eden'']"] i
  have a: "GNMWrapper_Initialize False (GNMWrapper_new\<lparr> gnm_initialized := True \<rparr>) =
     (True, GNMWrapper_new\<lparr> gnm_initialized := True \<rparr>, [])"
    "PS5AudioManager_Initialize False (PS5AudioManager_new\<lparr> audio_initialized := True \<rparr>) =
     (True, PS5AudioManager_new\<lparr> audio_initialized := True \<rparr>, [])"
    "PS5Application_Initialize dev_env [''eden''] (PS5Application_new\<lparr> app_initialized := True \<rparr>) =
     (True, PS5Application_new\<lparr> app_initialized := True \<rparr>, [])"
    by blast+
  from Initialize_Shutdown_idempotent
    [of GNMWrapper_new False PS5AudioManager_new PS5Application_new dev_env "[''eden'']"] n
  have b: "GNMWrapper_Shutdown False GNMWrapper_new = (GNMWrapper_new, [])"
    "PS5AudioManager_Shutdown PS5AudioManager_new = (PS5AudioManager_new, [])"
    "PS5Application_Shutdown False PS5Application_new = (PS5Application_new, [])"
    by blast+
  from a b show ?thesis by blast
qed

subsection \<open>The main loop\<close>

lemma call_names_append [simp]: "call_names (a @ b) = call_names a @ call_names b"
  by (simp add: call_names_def)

lemma call_names_simps [simp]:
  "call_names [] = []"
  "call_names (Call m # l) = m # call_names l"
  "call_names (GnmPresent a w h # l) = ''GNMWrapper::Present'' # call_names l"
  "call_names (Log m # l) = call_names l"
  "call_names (SleepFor d # l) = call_names l"
  by (simp_all add: call_names_def)

lemma sleeps_append [simp]: "sleeps (a @ b) = sleeps a @ sleeps b"
  by (simp add: sleeps_def)

lemma call_names_frame_limiting [simp]: "call_names (frame_limiting e) = []"
  by (simp add: frame_limiting_def call_names_def Let_def)

lemma Present_events:
  assumes "PS5Renderer_Present ps5 r = Some (r', l)"
  shows "sleeps l = []" and "gnm_wrapper r \<noteq> None \<Longrightarrow> call_names l = [''GNMWrapper::Present'']"
  using assms
  by (auto simp: PS5Renderer_Present_def PS5Renderer_SubmitCommandBuffer_def
        GNMWrapper_SubmitCommandBuffer_def GNMWrapper_Present_def sleeps_def call_names_def Let_def
      split: option.splits if_splits prod.splits)

lemma BeginFrame_events:
  "sleeps (snd (BeginFrame r)) = []"
  "command_buffer r \<noteq> None \<Longrightarrow> call_names (snd (BeginFrame r)) = [''PS5CommandBuffer::Begin'']"
  by (auto simp: BeginFrame_def sleeps_def call_names_def Let_def split: option.splits)

lemma EndFrame_events:
  "sleeps (snd (EndFrame r)) = []" "fst (EndFrame r) = r"
  "command_buffer r \<noteq> None \<Longrightarrow> call_names (snd (EndFrame r)) = [''PS5CommandBuffer::End'']"
  by (auto simp: EndFrame_def sleeps_def call_names_def split: option.splits)

lemma iteration_ready:
  assumes "subsystems_ready s"
  shows "\<exists>s' t' n' l. MainLoop_iteration ps5 e (s, t, n) = Some ((s', t', n'), l)
           \<and> call_names l = iteration_calls (emulation_running s) (emulation_paused s)
           \<and> subsystems_ready s'
           \<and> emulation_running s' = emulation_running s
           \<and> emulation_paused s' = emulation_paused s
           \<and> shutdown_requested s' = shutdown_requested s"
proof -
  from assms obtain r w c i f k where
    s: "renderer s = Some r" "input_manager s = Some i" "frontend s = Some f" "eden_core s = Some k"
    and r: "gnm_wrapper r = Some w" "command_buffer r = Some c" "length (frame_buffers r) = 3"
    by (auto simp: subsystems_ready_def split: option.splits)
  obtain r1 lb where b: "BeginFrame r = (r1, lb)" by (cases "BeginFrame r")
  then have r1: "r1 = fst (BeginFrame r)" and lb: "lb = snd (BeginFrame r)" by simp_all
  have idx: "unat (current_frame_buffer r1) < 3"
    unfolding r1 by (simp add: BeginFrame_def MAX_FRAME_BUFFERS_def Let_def unat_mod)
  have fr: "gnm_wrapper r1 = Some w" "command_buffer r1 = Some c" "length (frame_buffers r1) = 3"
    unfolding r1 using r by (simp_all add: BeginFrame_def Let_def)
  have cb: "call_names lb = [''PS5CommandBuffer::Begin'']"
    unfolding lb using r(2) by (simp add: BeginFrame_events)
  have e: "EndFrame r1 = (r1, [Call ''PS5CommandBuffer::End''])"
    using fr(2) by (simp add: EndFrame_def)
  obtain lp where p: "PS5Renderer_Present ps5 r1 = Some (r1, lp)"
    using Present_presented [of r1 w ps5] fr idx by auto
  have cp: "call_names lp = [''GNMWrapper::Present'']"
    using Present_events(2) [OF p] fr(1) by simp
  have rdy: "subsystems_ready (s\<lparr> renderer := Some r1 \<rparr>)"
    using s fr by (simp add: subsystems_ready_def)
  have rdy2: "subsystems_ready (s\<lparr> renderer := Some r1, current_fps := q \<rparr>)" for q
    using s fr by (simp add: subsystems_ready_def)
  show ?thesis
    using s b e p cb cp rdy rdy2
    by (simp add: MainLoop_iteration_def Let_def iteration_calls_def)
qed

lemma prepend_trace [simp]: "trace_of (prepend l out) = l @ trace_of out"
  by (cases out) simp_all

lemma loop_calls:
  assumes "subsystems_ready s"
  shows "\<exists>k \<le> length es. call_names (trace_of (MainLoop_loop ps5 es (s, t, n))) =
           concat (replicate k (iteration_calls (emulation_running s) (emulation_paused s)))"
  using assms
proof (induction es arbitrary: s t n)
  case Nil
  have "call_names (trace_of (MainLoop_loop ps5 [] (s, t, n))) =
          concat (replicate 0 (iteration_calls (emulation_running s) (emulation_paused s)))"
    by simp
  then show ?case by blast
next
  case (Cons e es)
  show ?case
  proof (cases "shutdown_requested s")
    case True
    have "call_names (trace_of (MainLoop_loop ps5 (e # es) (s, t, n))) =
          concat (replicate 0 (iteration_calls (emulation_running s) (emulation_paused s)))"
      using True by simp
    then show ?thesis by blast
  next
    case False
    from iteration_ready [OF Cons.prems, of ps5 e t n] obtain s' t' n' l where
      it: "MainLoop_iteration ps5 e (s, t, n) = Some ((s', t', n'), l)"
      and cl: "call_names l = iteration_calls (emulation_running s) (emulation_paused s)"
      and rd: "subsystems_ready s'"
      and fl: "emulation_running s' = emulation_running s" "emulation_paused s' = emulation_paused s"
      by blast
    let ?s2 = "s'\<lparr> shutdown_requested := shutdown_requested s' \<or> signalled e \<rparr>"
    have rd2: "subsystems_ready ?s2"
      using rd by (auto simp: subsystems_ready_def split: option.splits)
    from Cons.IH [OF rd2, of t' n'] obtain k where
      k: "k \<le> length es"
      "call_names (trace_of (MainLoop_loop ps5 es (?s2, t', n'))) =
         concat (replicate k (iteration_calls (emulation_running ?s2) (emulation_paused ?s2)))"
      by blast
    have "call_names (trace_of (MainLoop_loop ps5 (e # es) (s, t, n))) =
          concat (replicate (Suc k) (iteration_calls (emulation_running s) (emulation_paused s)))"
      using False it cl k(2) fl by simp
    moreover have "Suc k \<le> length (e # es)" using k(1) by simp
    ultimately show ?thesis by blast
  qed
qed


text \<open>
  C4.  With the subsystems in place, every iteration of the main loop makes its calls
  in one fixed order: the input manager's \<open>Update\<close>, the frontend's \<open>Update\<close>, the
  core's \<open>Update\<close> (only when emulation is running and not paused), then
  \<open>BeginFrame\<close> (which begins the command buffer), the core's \<open>Render\<close> (only when
  emulation is running), the frontend's \<open>Render\<close>, \<open>EndFrame\<close> (which ends the
  command buffer) and \<open>Present\<close> (which hands the frame to the GNM wrapper).  The
  iteration leaves the subsystems in place, so the calls of a whole run of the loop
  are that sequence, repeated once per iteration.  The loop body runs only while
  shutdown has not been requested: with the flag set the loop returns at once, and
  with the flag clear it runs the body and goes on with the rest of the run.
\<close>

theorem MainLoop_orchestration_order:
  "(subsystems_ready s \<longrightarrow>
      (\<exists>s' t' n' l.
          MainLoop_iteration ps5 e (s, t, n) = Some ((s', t', n'), l)
          \<and> call_names l =
                [''PS5InputManager::Update'', ''PS5Frontend::Update''] @
                (if emulation_running s \<and> \<not> emulation_paused s
                 then [''EdenCoreIntegration::Update''] else []) @
                [''PS5CommandBuffer::Begin''] @
                (if emulation_running s then [''EdenCoreIntegration::Render''] else []) @
                [''PS5Frontend::Render'', ''PS5CommandBuffer::End'', ''GNMWrapper::Present'']
          \<and> subsystems_ready s'
          \<and> (\<not> shutdown_requested s \<longrightarrow>
                 MainLoop_loop ps5 (e # es) (s, t, n) =
                 prepend l (MainLoop_loop ps5 es
                   (s'\<lparr> shutdown_requested := shutdown_requested s' \<or> signalled e \<rparr>, t', n')))))
   \<and> (subsystems_ready s \<longrightarrow>
      (\<exists>k \<le> length es.
          call_names (trace_of (MainLoop_loop ps5 es (s, t, n))) =
          concat (replicate k (iteration_calls (emulation_running s) (emulation_paused s)))))
   \<and> (shutdown_requested s \<longrightarrow> MainLoop_loop ps5 es (s, t, n) = Returned s [])"
proof -
  have a: "\<exists>s' t' n' l.
          MainLoop_iteration ps5 e (s, t, n) = Some ((s', t', n'), l)
          \<and> call_names l =
                [''PS5InputManager::Update'', ''PS5Frontend::Update''] @
                (if emulation_running s \<and> \<not> emulation_paused s
                 then [''EdenCoreIntegration::Update''] else []) @
                [''PS5CommandBuffer::Begin''] @
                (if emulation_running s then [''EdenCoreIntegration::Render''] else []) @
                [''PS5Frontend::Render'', ''PS5CommandBuffer::End'', ''GNMWrapper::Present'']
          \<and> subsystems_ready s'
          \<and> (\<not> shutdown_requested s \<longrightarrow>
                 MainLoop_loop ps5 (e # es) (s, t, n) =
                 prepend l (MainLoop_loop ps5 es
                   (s'\<lparr> shutdown_requested := shutdown_requested s' \<or> signalled e \<rparr>, t', n')))"
    if rdy: "subsystems_ready s"
  proof -
    from iteration_ready [OF rdy, of ps5 e t n] obtain s' t' n' l where
      it: "MainLoop_iteration ps5 e (s, t, n) = Some ((s', t', n'), l)"
      and cl: "call_names l = iteration_calls (emulation_running s) (emulation_paused s)"
      and rd: "subsystems_ready s'"
      by blast
    have "\<not> shutdown_requested s \<longrightarrow>
                 MainLoop_loop ps5 (e # es) (s, t, n) =
                 prepend l (MainLoop_loop ps5 es
                   (s'\<lparr> shutdown_requested := shutdown_requested s' \<or> signalled e \<rparr>, t', n'))"
      using it by simp
    then show ?thesis using it cl rd unfolding iteration_calls_def by blast
  qed
  have c: "MainLoop_loop ps5 es (s, t, n) = Returned s []" if "shutdown_requested s"
    using that by (cases es) simp_all
  from a loop_calls [of s es ps5 t n] c show ?thesis by blast
qed

text \<open>
  The witness: an application with its subsystems in place and a game running.  One
  iteration makes the eight calls in order.
\<close>

theorem MainLoop_orchestration_order_witness:
  "call_names (snd (the (MainLoop_iteration False
       \<lparr> t_frame_start = 0, t_now = 5000000, t_frame_end = 5000999, signalled = False \<rparr>
       (ready_app, 0, 0)))) =
     [''PS5InputManager::Update'', ''PS5Frontend::Update'', ''EdenCoreIntegration::Update'',
      ''PS5CommandBuffer::Begin'', ''EdenCoreIntegration::Render'', ''PS5Frontend::Render'',
      ''PS5CommandBuffer::End'', ''GNMWrapper::Present'']"
proof -
  have rdy: "subsystems_ready ready_app"
    by (simp add: subsystems_ready_def ready_app_def PS5Application_new_def PS5Renderer_new_def)
  have fl: "emulation_running ready_app" "\<not> emulation_paused ready_app"
    by (simp_all add: ready_app_def PS5Application_new_def)
  from MainLoop_orchestration_order
    [of ready_app False
        "\<lparr> t_frame_start = 0, t_now = 5000000, t_frame_end = 5000999, signalled = False \<rparr>"
        0 0 "[]"] rdy
  obtain s' t' n' l where
    "MainLoop_iteration False
       \<lparr> t_frame_start = 0, t_now = 5000000, t_frame_end = 5000999, signalled = False \<rparr>
       (ready_app, 0, 0) = Some ((s', t', n'), l)"
    and "call_names l =
                [''PS5InputManager::Update'', ''PS5Frontend::Update''] @
                (if emulation_running ready_app \<and> \<not> emulation_paused ready_app
                 then [''EdenCoreIntegration::Update''] else []) @
                [''PS5CommandBuffer::Begin''] @
                (if emulation_running ready_app then [''EdenCoreIntegration::Render''] else []) @
                [''PS5Frontend::Render'', ''PS5CommandBuffer::End'', ''GNMWrapper::Present'']"
    by blast
  then show ?thesis using fl by simp
qed

subsection \<open>Frame pacing\<close>

lemma iteration_sleeps:
  assumes "MainLoop_iteration ps5 e st = Some (st', l)"
  shows "sleeps l = sleeps (frame_limiting e)"
proof -
  obtain s t n where st: "st = (s, t, n)" by (cases st)
  show ?thesis
  proof (cases "renderer s")
    case None
    then show ?thesis using assms st
      by (auto simp: MainLoop_iteration_def Let_def sleeps_def split: option.splits if_splits)
  next
    case (Some r)
    obtain r1 lb where b: "BeginFrame r = (r1, lb)" by (cases "BeginFrame r")
    have lb: "sleeps lb = []" using BeginFrame_events(1) [of r] b by simp
    obtain le where e: "EndFrame r1 = (r1, le)" using EndFrame_events(2) [of r1] by (cases "EndFrame r1") simp
    have le: "sleeps le = []" using EndFrame_events(1) [of r1] e by simp
    from assms st Some b e obtain r3 lp where p: "PS5Renderer_Present ps5 r1 = Some (r3, lp)"
      by (auto simp: MainLoop_iteration_def Let_def split: option.splits)
    have lp: "sleeps lp = []" using Present_events(1) [OF p] .
    show ?thesis using assms st Some b e p lb le lp
      by (auto simp: MainLoop_iteration_def Let_def split: option.splits if_splits)
         (simp_all add: sleeps_def)
  qed
qed

lemma sleeps_frame_limiting:
  "sleeps (frame_limiting e) =
     (if duration_cast 1000 (t_frame_end e - t_frame_start e) < 16667
      then [16667 - duration_cast 1000 (t_frame_end e - t_frame_start e)] else [])"
  by (simp add: frame_limiting_def sleeps_def target_frame_time_def Let_def)

lemma div_1000_le: "0 \<le> (ns :: int) \<Longrightarrow> 1000 * (ns div 1000) \<le> ns"
proof -
  have "ns = 1000 * (ns div 1000) + ns mod 1000" by simp
  moreover have "0 \<le> ns mod 1000" by simp
  ultimately show ?thesis by linarith
qed

lemma pacing_bound:
  fixes ns slept :: int
  assumes "0 \<le> ns"
    and "\<forall>d \<in> set (if duration_cast 1000 ns < 16667 then [16667 - duration_cast 1000 ns] else []). 1000 * d \<le> slept"
  shows "16667000 \<le> ns + (if duration_cast 1000 ns < 16667 then slept else 0)"
proof -
  define q where "q = ns div 1000"
  have d: "duration_cast 1000 ns = q" using assms(1) by (simp add: duration_cast_def q_def)
  have le: "1000 * q \<le> ns" unfolding q_def using assms(1) by (rule div_1000_le)
  show ?thesis
  proof (cases "q < 16667")
    case True
    then have "1000 * (16667 - q) \<le> slept" using assms(2) unfolding d by simp
    then show ?thesis using True le unfolding d by simp
  next
    case False
    then show ?thesis using le unfolding d by simp
  qed
qed


text \<open>
  C5.  The target frame time is 16667 microseconds.  An iteration whose measured
  duration, in whole microseconds, is below the target asks \<open>sleep_for\<close> for exactly
  the difference, once; an iteration at or above the target does not sleep.  Hence
  no iteration is shorter than the target: with a clock that does not run backwards,
  and \<open>slept\<close> the nanoseconds a \<open>sleep_for\<close> really took, which is at least what it
  was asked for, the measured duration plus the sleep is at least 16667000
  nanoseconds.
\<close>

theorem MainLoop_frame_pacing:
  "target_frame_time = 16667
   \<and> (MainLoop_iteration ps5 e st = Some (st', l) \<longrightarrow>
        sleeps l =
        (if duration_cast 1000 (t_frame_end e - t_frame_start e) < 16667
         then [16667 - duration_cast 1000 (t_frame_end e - t_frame_start e)] else []))
   \<and> (MainLoop_iteration ps5 e st = Some (st', l) \<and> t_frame_start e \<le> t_frame_end e
        \<and> (\<forall>d \<in> set (sleeps l). 1000 * d \<le> slept) \<longrightarrow>
        16667000 \<le> (t_frame_end e - t_frame_start e) + (if sleeps l = [] then 0 else slept))"
proof -
  let ?ns = "t_frame_end e - t_frame_start e"
  have a: "sleeps l =
        (if duration_cast 1000 ?ns < 16667 then [16667 - duration_cast 1000 ?ns] else [])"
    if "MainLoop_iteration ps5 e st = Some (st', l)"
    using iteration_sleeps [OF that] by (simp add: sleeps_frame_limiting)
  have b: "16667000 \<le> ?ns + (if sleeps l = [] then 0 else slept)"
    if it: "MainLoop_iteration ps5 e st = Some (st', l)" and mono: "t_frame_start e \<le> t_frame_end e"
      and sl: "\<forall>d \<in> set (sleeps l). 1000 * d \<le> slept"
  proof -
    have "0 \<le> ?ns" using mono by simp
    moreover have "\<forall>d \<in> set (if duration_cast 1000 ?ns < 16667
                              then [16667 - duration_cast 1000 ?ns] else []). 1000 * d \<le> slept"
      using sl unfolding a [OF it] .
    ultimately have "16667000 \<le> ?ns + (if duration_cast 1000 ?ns < 16667 then slept else 0)"
      by (rule pacing_bound)
    then show ?thesis unfolding a [OF it] by (simp split: if_splits)
  qed
  have t: "target_frame_time = 16667" by (simp add: target_frame_time_def)
  from t a b show ?thesis by blast
qed

text \<open>
  The witness: the iteration of the previous witness took 5000999 nanoseconds, which
  is 5000 whole microseconds, so it sleeps 11667 microseconds; if the sleep takes that
  long, the iteration lasts 16667999 nanoseconds.
\<close>

theorem MainLoop_frame_pacing_witness:
  "sleeps (snd (the (MainLoop_iteration False
       \<lparr> t_frame_start = 0, t_now = 5000000, t_frame_end = 5000999, signalled = False \<rparr>
       (ready_app, 0, 0)))) = [11667]
   \<and> (16667000 :: int) \<le> 5000999 + 11667000"
proof -
  let ?e = "\<lparr> t_frame_start = 0, t_now = 5000000, t_frame_end = 5000999, signalled = False \<rparr>"
  have rdy: "subsystems_ready ready_app"
    by (simp add: subsystems_ready_def ready_app_def PS5Application_new_def PS5Renderer_new_def)
  from iteration_ready [OF rdy, of False ?e 0 0] obtain st' l where
    it: "MainLoop_iteration False ?e (ready_app, 0, 0) = Some (st', l)" by auto
  have d: "duration_cast 1000 (t_frame_end ?e - t_frame_start ?e) = 5000"
    by (simp add: duration_cast_def)
  from MainLoop_frame_pacing [of False ?e "(ready_app, 0, 0)" st' l 11667000] it
  have s: "sleeps l = [11667]" unfolding d by simp
  have h: "t_frame_start ?e \<le> t_frame_end ?e \<and> (\<forall>d \<in> set (sleeps l). 1000 * d \<le> 11667000)"
    unfolding s by simp
  from MainLoop_frame_pacing [of False ?e "(ready_app, 0, 0)" st' l 11667000] it h
  have "16667000 \<le> (t_frame_end ?e - t_frame_start ?e) + (if sleeps l = [] then 0 else 11667000)"
    by blast
  then show ?thesis using it s by simp
qed

subsection \<open>Failure handling at start-up\<close>

lemma prepend_prepend [simp]: "prepend a (prepend b out) = prepend (a @ b) out"
  by (cases out) simp_all

lemma prepend_Returned: "prepend l out = Returned c t \<Longrightarrow> \<exists>t'. out = Returned c t'"
  by (cases out) simp_all

lemma and_then_prepend [simp]: "and_then (prepend l m) f = prepend l (and_then m f)"
  by (cases m) simp_all

lemma InitializeIPC_true: "\<exists>l. InitializeIPC ps5 = (True, l)"
  by (simp add: InitializeIPC_def)

lemma SendIPCCommand_returns:
  assumes "exchange_returns net"
  shows "\<exists>x l. SendIPCCommand net command response p = Returned x l"
proof (cases "send_ret net")
  case (SendReturns sent)
  show ?thesis
  proof (cases "recv_ret net")
    case (RecvReturns got)
    show ?thesis using SendReturns RecvReturns by (auto simp: SendIPCCommand_def)
  next
    case RecvBlocks
    then have "sent < 0" using assms SendReturns by (simp add: exchange_returns_def)
    then show ?thesis using SendReturns by (auto simp: SendIPCCommand_def)
  qed
next
  case SendSigpipe
  then show ?thesis using assms by (simp add: exchange_returns_def)
qed

lemma RegisterWithEtaHEN_returns:
  assumes "exchange_returns net"
  shows "\<exists>x l. RegisterWithEtaHEN net name version p = Returned x l"
proof (cases "connected p")
  case True
  obtain x l where s: "SendIPCCommand net (''REGISTER_PLUGIN:'' @ name @ '':'' @ version) []
      (p\<lparr> plugin_name := name, plugin_version := version \<rparr>) = Returned x l"
    using SendIPCCommand_returns [OF assms] by blast
  obtain ok r where x: "x = (ok, r)" by (cases x)
  show ?thesis using True s x by (cases ok) (auto simp: RegisterWithEtaHEN_def Let_def)
next
  case False
  then show ?thesis by (auto simp: RegisterWithEtaHEN_def)
qed

lemma EtaHEN_Initialize_not_detected:
  assumes "\<not> plugin_initialized p" and "\<not> fst (ConnectToEtaHEN ps5 sock_ret conn_ret p)"
  shows "\<exists>p' l. EtaHENPlugin_Initialize ps5 sock_ret conn_ret net p = Returned (True, p') l
           \<and> plugin_initialized p' \<and> \<not> etahen_available p'"
proof -
  obtain l1 where i: "InitializeIPC ps5 = (True, l1)" using InitializeIPC_true by blast
  obtain av p1 l2 where c: "ConnectToEtaHEN ps5 sock_ret conn_ret p = (av, p1, l2)"
    by (metis prod_cases3)
  then have "\<not> av" using assms(2) by simp
  then show ?thesis using i c assms(1)
    by (simp add: EtaHENPlugin_Initialize_def Let_def)
qed

lemma EtaHEN_Initialize_true:
  assumes "exchange_returns net"
  shows "\<exists>p' l. EtaHENPlugin_Initialize ps5 sock_ret conn_ret net p = Returned (True, p') l
           \<and> plugin_initialized p'"
proof (cases "plugin_initialized p")
  case True
  then show ?thesis by (simp add: EtaHENPlugin_Initialize_def)
next
  case False
  obtain l1 where i: "InitializeIPC ps5 = (True, l1)" using InitializeIPC_true by blast
  obtain av p1 l2 where c: "ConnectToEtaHEN ps5 sock_ret conn_ret p = (av, p1, l2)"
    by (metis prod_cases3)
  obtain x l where r0: "RegisterWithEtaHEN net (plugin_name p1) (plugin_version p1)
      (p1\<lparr> etahen_available := av \<rparr>) = Returned x l"
    using RegisterWithEtaHEN_returns [OF assms] by blast
  obtain rok p' where x: "x = (rok, p')" by (cases x)
  note r = r0 [unfolded x]
  show ?thesis using False i c r
    by (cases av; cases rok) (simp_all add: EtaHENPlugin_Initialize_def Let_def)
qed

lemma App_Init_sets:
  assumes "fst (PS5Application_Initialize env argv s)"
  shows "app_initialized (fst (snd (PS5Application_Initialize env argv s)))"
proof (cases "app_initialized s")
  case True
  then show ?thesis by (simp add: App_Init_guard)
next
  case False
  obtain ok1 s1 l1 where P: "ProcessCommandLine argv s = (ok1, s1, l1)" by (metis prod_cases3)
  obtain ok2 s2 l2 where I: "InitializeSubsystems env s1 = (ok2, s2, l2)" by (metis prod_cases3)
  show ?thesis using assms False P I
    by (cases ok1; cases ok2) (simp_all add: PS5Application_Initialize_def)
qed

lemma Run_initialized:
  assumes "app_initialized s"
  shows "\<exists>post. trace_of (Run ps5 a b t0 es s) = Log ''[PS5Application] Starting main loop...'' # post"
    and "\<forall>c s' l. Run ps5 a b t0 es s = Returned (c, s') l \<longrightarrow> c = 0"
proof -
  obtain s1 l1 where g: "Run_load_game a b s = (s1, l1)" by (cases "Run_load_game a b s")
  show "\<exists>post. trace_of (Run ps5 a b t0 es s) = Log ''[PS5Application] Starting main loop...'' # post"
    using assms g by (cases "MainLoop ps5 t0 es s1") (simp_all add: Run_def)
  show "\<forall>c s' l. Run ps5 a b t0 es s = Returned (c, s') l \<longrightarrow> c = 0"
    using assms g by (cases "MainLoop ps5 t0 es s1") (simp_all add: Run_def)
qed

lemma main_cleanup_trace: "\<exists>post. trace_of (main_cleanup env sys plugin out) = trace_of out @ post"
proof (cases out)
  case (Returned x l3)
  obtain c s' where x: "x = (c, s')" by (cases x)
  show ?thesis using Returned x
    by (simp add: main_cleanup_def Let_def split: prod.splits)
qed (simp_all add: main_cleanup_def)

lemma and_then_Returned_const:
  "and_then m (\<lambda>x. Returned c l) = Returned c' t \<Longrightarrow> c' = c"
  by (cases m) simp_all

lemma main_cleanup_Returned:
  assumes "main_cleanup env sys plugin out = Returned c l"
  shows "\<exists>s' l'. out = Returned (c, s') l'"
proof (cases out)
  case (Returned x l3)
  obtain c' s' where x: "x = (c', s')" by (cases x)
  obtain app2 l4 where a: "PS5Application_Shutdown (ps5_build (m_init env)) s' = (app2, l4)"
    by (cases "PS5Application_Shutdown (ps5_build (m_init env)) s'")
  obtain sys' l6 where b: "PS5System_Shutdown (ps5_build (m_init env)) sys = (sys', l6)"
    by (cases "PS5System_Shutdown (ps5_build (m_init env)) sys")
  have "prepend (l3 @ [Log ''[Main] Application finished with result: '',
                       Log ''[Main] Shutting down...''] @ l4)
          (and_then (EtaHENPlugin_Shutdown (m_stop_ftp env) (m_unregister env) plugin)
             (\<lambda>plugin'. Returned c' (l6 @ [Log ''[Main] Eden PS5 shutdown complete'']))) =
        Returned c l"
    using assms Returned x a b by (simp add: main_cleanup_def)
  then have "\<exists>t'. and_then (EtaHENPlugin_Shutdown (m_stop_ftp env) (m_unregister env) plugin)
             (\<lambda>plugin'. Returned c' (l6 @ [Log ''[Main] Eden PS5 shutdown complete''])) =
        Returned c t'"
    by (rule prepend_Returned)
  then obtain t' where e: "and_then (EtaHENPlugin_Shutdown (m_stop_ftp env) (m_unregister env) plugin)
             (\<lambda>plugin'. Returned c' (l6 @ [Log ''[Main] Eden PS5 shutdown complete''])) =
        Returned c t'"
    by (rule exE)
  have "c = c'" by (rule and_then_Returned_const [OF e])
  then show ?thesis using Returned x by simp
qed (use assms in \<open>simp_all add: main_cleanup_def\<close>)

lemma main_app_runs:
  assumes "fst (PS5Application_Initialize (m_init env) (m_argv env) PS5Application_new)"
  shows "\<exists>post. trace_of (main_app env sys plugin) =
           [Log ''[Main] Creating PS5 application...''] @
           snd (snd (PS5Application_Initialize (m_init env) (m_argv env) PS5Application_new)) @
           [Log ''[Main] Eden PS5 initialized successfully!'', Log ''[Main] Starting emulator...'',
            Log ''[PS5Application] Starting main loop...''] @ post"
    and "\<forall>c l. main_app env sys plugin = Returned c l \<longrightarrow> c = 0"
proof -
  obtain ok app l1 where i0: "PS5Application_Initialize (m_init env) (m_argv env) PS5Application_new = (ok, app, l1)"
    by (cases "PS5Application_Initialize (m_init env) (m_argv env) PS5Application_new")
  then have i: "PS5Application_Initialize (m_init env) (m_argv env) PS5Application_new = (True, app, l1)"
    using assms by simp
  have ai: "app_initialized app" using App_Init_sets [OF assms] i by simp
  define run where "run = Run (ps5_build (m_init env)) (m_core_load_ok env) (m_core_start_ok env) (m_t0 env) (m_iters env) app"
  define fin where "fin = main_cleanup env sys plugin run"
  have m: "main_app env sys plugin =
             prepend ([Log ''[Main] Creating PS5 application...''] @ l1 @
                      [Log ''[Main] Eden PS5 initialized successfully!'', Log ''[Main] Starting emulator...'']) fin"
    unfolding fin_def run_def using i by (simp add: main_app_def Let_def)
  obtain post where p: "trace_of run = Log ''[PS5Application] Starting main loop...'' # post"
    using Run_initialized(1) [OF ai, of "ps5_build (m_init env)" "m_core_load_ok env"
        "m_core_start_ok env" "m_t0 env" "m_iters env"]
    by (auto simp: run_def)
  obtain post2 where q: "trace_of fin = trace_of run @ post2"
    using main_cleanup_trace [of env sys plugin run] by (auto simp: fin_def)
  have "trace_of (main_app env sys plugin) =
           [Log ''[Main] Creating PS5 application...''] @
           snd (snd (PS5Application_Initialize (m_init env) (m_argv env) PS5Application_new)) @
           [Log ''[Main] Eden PS5 initialized successfully!'', Log ''[Main] Starting emulator...'',
            Log ''[PS5Application] Starting main loop...''] @ (post @ post2)"
    by (simp add: m i q p)
  then show "\<exists>post. trace_of (main_app env sys plugin) =
           [Log ''[Main] Creating PS5 application...''] @
           snd (snd (PS5Application_Initialize (m_init env) (m_argv env) PS5Application_new)) @
           [Log ''[Main] Eden PS5 initialized successfully!'', Log ''[Main] Starting emulator...'',
            Log ''[PS5Application] Starting main loop...''] @ post"
    by (rule exI)
  show "\<forall>c l. main_app env sys plugin = Returned c l \<longrightarrow> c = 0"
  proof (intro allI impI)
    fix c l assume a: "main_app env sys plugin = Returned c l"
    from a [unfolded m] have "\<exists>t'. fin = Returned c t'" by (rule prepend_Returned)
    then obtain t' where "main_cleanup env sys plugin run = Returned c t'" by (auto simp: fin_def)
    then have "\<exists>s' l'. run = Returned (c, s') l'" by (rule main_cleanup_Returned)
    then show "c = 0"
      using Run_initialized(2) [OF ai, of "ps5_build (m_init env)" "m_core_load_ok env"
        "m_core_start_ok env" "m_t0 env" "m_iters env"]
      by (auto simp: run_def)
  qed
qed

lemma main_app_creates:
  "\<exists>post. trace_of (main_app env sys plugin) =
           [Log ''[Main] Creating PS5 application...''] @
           snd (snd (PS5Application_Initialize (m_init env) (m_argv env) PS5Application_new)) @ post"
proof (cases "fst (PS5Application_Initialize (m_init env) (m_argv env) PS5Application_new)")
  case True
  from main_app_runs(1) [OF True, of sys plugin] obtain post where
    "trace_of (main_app env sys plugin) =
           [Log ''[Main] Creating PS5 application...''] @
           snd (snd (PS5Application_Initialize (m_init env) (m_argv env) PS5Application_new)) @
           ([Log ''[Main] Eden PS5 initialized successfully!'', Log ''[Main] Starting emulator...'',
            Log ''[PS5Application] Starting main loop...''] @ post)"
    by auto
  then show ?thesis by (rule exI)
next
  case False
  obtain ok app l1 where i: "PS5Application_Initialize (m_init env) (m_argv env) PS5Application_new = (ok, app, l1)"
    by (cases "PS5Application_Initialize (m_init env) (m_argv env) PS5Application_new")
  then show ?thesis using False by (simp add: main_app_def)
qed

lemma PS5System_Initialize_true: "fst (PS5System_Initialize ps5 sys)"
  by (simp add: PS5System_Initialize_def Let_def split: prod.splits)


lemma RequestJailbreak_returns:
  assumes "exchange_returns net"
  shows "\<exists>x l. RequestJailbreak net my_pid pid p = Returned x l"
proof (cases "connected p")
  case True
  obtain x l where s: "SendIPCCommand net
      (''JAILBREAK:'' @ to_string (if pid = - 1 then my_pid else pid)) [] p = Returned x l"
    using SendIPCCommand_returns [OF assms] by blast
  obtain ok r where x: "x = (ok, r)" by (cases x)
  show ?thesis using True s x by (cases ok) (auto simp: RequestJailbreak_def Let_def)
next
  case False
  then show ?thesis by (auto simp: RequestJailbreak_def)
qed

lemma EnableDataAccess_returns:
  assumes "exchange_returns net"
  shows "\<exists>x l. EnableDataAccess net p = Returned x l"
proof (cases "connected p")
  case True
  obtain x l where s: "SendIPCCommand net ''ENABLE_DATA_ACCESS'' [] p = Returned x l"
    using SendIPCCommand_returns [OF assms] by blast
  obtain ok r where x: "x = (ok, r)" by (cases x)
  show ?thesis using True s x by (auto simp: EnableDataAccess_def)
next
  case False
  then show ?thesis by (auto simp: EnableDataAccess_def)
qed

lemma jailbreak_block_returns:
  assumes "\<not> etahen_available plugin \<or>
           exchange_returns (m_jailbreak env) \<and> exchange_returns (m_data_access env)"
  shows "\<exists>l. jailbreak_block env plugin = Returned () l"
proof (cases "etahen_available plugin")
  case True
  then have j: "exchange_returns (m_jailbreak env)" and d: "exchange_returns (m_data_access env)"
    using assms by auto
  obtain jok lj where rj: "RequestJailbreak (m_jailbreak env) (m_pid env) (- 1) plugin = Returned jok lj"
    using RequestJailbreak_returns [OF j] by blast
  obtain dok ld where rd: "EnableDataAccess (m_data_access env) plugin = Returned dok ld"
    using EnableDataAccess_returns [OF d] by blast
  show ?thesis using True rj rd by (cases jok) (simp_all add: jailbreak_block_def)
next
  case False
  then show ?thesis by (simp add: jailbreak_block_def)
qed

lemma main_after_etahen_reaches_app:
  assumes "\<not> etahen_available plugin \<or>
           exchange_returns (m_jailbreak env) \<and> exchange_returns (m_data_access env)"
  shows "\<exists>pre. main_after_etahen env sys eok plugin = prepend pre (main_app env sys plugin)"
proof -
  obtain l where j: "jailbreak_block env plugin = Returned () l"
    using jailbreak_block_returns [OF assms] by blast
  have "main_after_etahen env sys eok plugin =
          prepend ((if \<not> eok
                    then [Log ''[Main] Warning: etaHEN integration failed, continuing anyway...'']
                    else []) @ l) (main_app env sys plugin)"
    by (simp add: main_after_etahen_def j)
  then show ?thesis by (rule exI)
qed

lemma main_reaches_app:
  assumes "\<not> fst (ConnectToEtaHEN (ps5_build (m_init env)) (m_sock_ret env) (m_conn_ret env)
                    EtaHENPlugin_new)
           \<or> startup_exchanges_return env"
  shows "\<exists>pre sys plugin. main env = prepend pre (main_app env sys plugin)"
proof -
  let ?ps5 = "ps5_build (m_init env)"
  obtain pok sys l1 where s: "PS5System_Initialize ?ps5 PS5System_init = (pok, sys, l1)"
    by (cases "PS5System_Initialize ?ps5 PS5System_init")
  have pok: pok using PS5System_Initialize_true [of ?ps5 PS5System_init] s by simp
  have n: "\<not> plugin_initialized EtaHENPlugin_new" by (simp add: EtaHENPlugin_new_def)
  have "\<exists>plugin l2. EtaHENPlugin_Initialize ?ps5 (m_sock_ret env) (m_conn_ret env)
            (m_register env) EtaHENPlugin_new = Returned (True, plugin) l2
          \<and> (\<not> etahen_available plugin \<or>
               exchange_returns (m_jailbreak env) \<and> exchange_returns (m_data_access env))"
  proof (cases "startup_exchanges_return env")
    case True
    then have r: "exchange_returns (m_register env)" and j: "exchange_returns (m_jailbreak env)"
      and d: "exchange_returns (m_data_access env)"
      by (simp_all add: startup_exchanges_return_def)
    show ?thesis using EtaHEN_Initialize_true [OF r, of ?ps5 "m_sock_ret env" "m_conn_ret env"
        EtaHENPlugin_new] j d by blast
  next
    case False
    then have c: "\<not> fst (ConnectToEtaHEN ?ps5 (m_sock_ret env) (m_conn_ret env) EtaHENPlugin_new)"
      using assms by simp
    show ?thesis using EtaHEN_Initialize_not_detected [OF n c, of "m_register env"] by blast
  qed
  then obtain plugin l2 where e: "EtaHENPlugin_Initialize ?ps5 (m_sock_ret env) (m_conn_ret env)
            (m_register env) EtaHENPlugin_new = Returned (True, plugin) l2"
    and h: "\<not> etahen_available plugin \<or>
               exchange_returns (m_jailbreak env) \<and> exchange_returns (m_data_access env)"
    by blast
  obtain pre where a: "main_after_etahen env sys True plugin = prepend pre (main_app env sys plugin)"
    using main_after_etahen_reaches_app [OF h] by blast
  have "main env = prepend
      ((PrintBanner @ [CallS ''signal'' ''SIGINT'', CallS ''signal'' ''SIGTERM''] @
               [if ?ps5 then Log ''[Main] Running on PlayStation 5''
                else Log ''[Main] Running in development environment'',
                Log ''[Main] Initializing PS5 platform...''] @ l1 @
               [Log ''[Main] Initializing etaHEN integration...'']) @ l2 @ pre)
      (main_app env sys plugin)"
    using s pok e a by (simp add: main_def Let_def)
  then show ?thesis by (intro exI)
qed


lemma SendIPCCommand_fails:
  assumes "exchange_fails net"
  shows "\<exists>r l. SendIPCCommand net command response p = Returned (False, r) l"
proof (cases "send_ret net")
  case (SendReturns sent)
  show ?thesis
  proof (cases "recv_ret net")
    case (RecvReturns got)
    show ?thesis using assms SendReturns RecvReturns
      by (auto simp: SendIPCCommand_def exchange_fails_def)
  next
    case RecvBlocks
    then show ?thesis using assms SendReturns
      by (auto simp: SendIPCCommand_def exchange_fails_def)
  qed
next
  case SendSigpipe
  then show ?thesis using assms by (simp add: exchange_fails_def)
qed

lemma RegisterWithEtaHEN_fails:
  assumes "exchange_fails net"
  shows "\<exists>p' l. RegisterWithEtaHEN net name version p = Returned (False, p') l
           \<and> registered p' = registered p"
proof (cases "connected p")
  case True
  obtain r l where s: "SendIPCCommand net (''REGISTER_PLUGIN:'' @ name @ '':'' @ version) []
      (p\<lparr> plugin_name := name, plugin_version := version \<rparr>) = Returned (False, r) l"
    using SendIPCCommand_fails [OF assms] by blast
  show ?thesis using True s by (simp add: RegisterWithEtaHEN_def Let_def)
next
  case False
  then show ?thesis by (simp add: RegisterWithEtaHEN_def)
qed

lemma ConnectToEtaHEN_registered:
  "registered (fst (snd (ConnectToEtaHEN ps5 sock_ret conn_ret p))) = registered p"
  by (simp add: ConnectToEtaHEN_def Let_def)

lemma EtaHEN_Initialize_registration_fails:
  assumes "\<not> plugin_initialized p" and "\<not> registered p" and "exchange_fails net"
  shows "\<exists>p' l. EtaHENPlugin_Initialize ps5 sock_ret conn_ret net p = Returned (True, p') l
           \<and> plugin_initialized p' \<and> \<not> registered p'"
proof -
  obtain l1 where i: "InitializeIPC ps5 = (True, l1)" using InitializeIPC_true by blast
  obtain av p1 l2 where c: "ConnectToEtaHEN ps5 sock_ret conn_ret p = (av, p1, l2)"
    by (metis prod_cases3)
  have r1: "\<not> registered p1"
    using ConnectToEtaHEN_registered [of ps5 sock_ret conn_ret p] c assms(2) by simp
  obtain p' l where r: "RegisterWithEtaHEN net (plugin_name p1) (plugin_version p1)
      (p1\<lparr> etahen_available := av \<rparr>) = Returned (False, p') l"
    and r2: "registered p' = registered (p1\<lparr> etahen_available := av \<rparr>)"
    using RegisterWithEtaHEN_fails [OF assms(3)] by blast
  have r3: "\<not> registered p'" using r1 r2 by simp
  show ?thesis using assms(1) i c r r1 r3
    by (cases av) (simp_all add: EtaHENPlugin_Initialize_def Let_def)
qed

lemma jailbreak_failed:
  assumes "etahen_available plugin"
    and "RequestJailbreak (m_jailbreak env) (m_pid env) (- 1) plugin = Returned False lj"
  shows "main_after_etahen env sys True plugin =
        prepend
          (Log ''[Main] etaHEN detected - requesting jailbreak...'' # lj @
           [Log ''[Main] Warning: Jailbreak failed, limited functionality''])
          (main_app env sys plugin)"
  using assms by (simp add: main_after_etahen_def jailbreak_block_def)




end
